theory Spec2Isabelle
  imports Complex_Main "HOL-Library.DAList"
begin

section \<open>JavaScript values\<close>

text \<open>
  Both servers work on values that come out of a JSON parser and hand values back to a JSON
  serialiser, and two of their defects are about the run-time shape of a value (is a thrown
  value an \<open>Error\<close> instance, does an object own a key). Values are therefore modelled
  as JavaScript has them, untyped. A number is an IEEE double: a finite value (read as a
  rational; both zeros are \<open>Fin 0\<close>), an infinity or NaN.
\<close>

datatype jsnum = Fin rat | PosInf | NegInf | NaN

datatype jsval =
    Undefined
  | JNull
  | JBool bool
  | JNum jsnum
  | JStr string
  | JArr "jsval list"
  | JObj "(string \<times> jsval) list"

text \<open>
  A thrown value is either an instance of \<open>Error\<close> (\<open>new Error(msg)\<close>, a
  \<open>TypeError\<close> of the engine), kept by its message, or any other value, such as the
  plain object that \<open>MCPServer.createError\<close> builds.
\<close>

datatype thrown = JsError string | Thrown jsval

fun instanceof_Error :: "thrown \<Rightarrow> bool" where
  "instanceof_Error (JsError m) = True"
| "instanceof_Error (Thrown v) = False"

text \<open>
  \<open>error_message\<close> is \<open>error.message\<close> where the code has checked
  \<open>error instanceof Error\<close> first.
\<close>

fun error_message :: "thrown \<Rightarrow> string" where
  "error_message (JsError m) = m"
| "error_message (Thrown v) = []"

text \<open>JavaScript truthiness, and \<open>a || b\<close>.\<close>

fun truthy :: "jsval \<Rightarrow> bool" where
  "truthy Undefined = False"
| "truthy JNull = False"
| "truthy (JBool b) = b"
| "truthy (JNum n) = (n \<noteq> Fin 0 \<and> n \<noteq> NaN)"
| "truthy (JStr s) = (s \<noteq> [])"
| "truthy (JArr xs) = True"
| "truthy (JObj kvs) = True"

definition js_or :: "jsval \<Rightarrow> jsval \<Rightarrow> jsval" where
  "js_or a b = (if truthy a then a else b)"

text \<open>
  Property reads. \<open>field v k\<close> is \<open>v?.k\<close>, and also \<open>v.k\<close> on a value that is
  neither \<open>undefined\<close> nor \<open>null\<close>: an object gives the value stored under the key
  or \<open>undefined\<close>; a primitive or an array gives \<open>undefined\<close> for every property name
  the program reads (none of them is on a prototype). \<open>get_prop v k\<close> is \<open>v.k\<close>,
  which throws a \<open>TypeError\<close> on \<open>undefined\<close> and \<open>null\<close>.
\<close>

fun field :: "jsval \<Rightarrow> string \<Rightarrow> jsval" where
  "field (JObj kvs) k = (case map_of kvs k of None \<Rightarrow> Undefined | Some v \<Rightarrow> v)"
| "field v k = Undefined"

definition cannot_read :: "jsval \<Rightarrow> string \<Rightarrow> thrown" where
  "cannot_read v k =
     JsError (''Cannot read properties of '' @ (if v = JNull then ''null'' else ''undefined'')
              @ '' (reading '' @ [CHR 0x27] @ k @ [CHR 0x27] @ '')'')"

definition get_prop :: "jsval \<Rightarrow> string \<Rightarrow> thrown + jsval" where
  "get_prop v k = (if v = Undefined \<or> v = JNull then Inl (cannot_read v k) else Inr (field v k))"

text \<open>\<open>'k' in v\<close> on an object.\<close>

fun has_key :: "string \<Rightarrow> jsval \<Rightarrow> bool" where
  "has_key k (JObj kvs) = (map_of kvs k \<noteq> None)"
| "has_key k v = False"

text \<open>\<open>error.message\<close> on any thrown value.\<close>

fun message_of :: "thrown \<Rightarrow> jsval" where
  "message_of (JsError m) = JStr m"
| "message_of (Thrown v) = field v ''message''"

text \<open>
  Conversion to a string (a template literal, \<open>String(v)\<close>, a property key
  \<open>o[v]\<close>). On a value that came out of a JSON parser it throws a \<open>TypeError\<close>
  exactly when it reaches an object that owns a key \<open>toString\<close>: the value stored there
  is never a function, and \<open>valueOf\<close> (the object's own, not a function either, or the
  inherited one, which returns the object) gives no primitive. An object without that key
  is \<open>[object Object]\<close>; an array is its members joined by commas, \<open>null\<close> and
  \<open>undefined\<close> members as the empty string.
\<close>

fun to_string_fails :: "jsval \<Rightarrow> bool" where
  "to_string_fails (JObj kvs) = (map_of kvs ''toString'' \<noteq> None)"
| "to_string_fails (JArr xs) = list_ex to_string_fails xs"
| "to_string_fails v = False"

definition type_error_primitive :: thrown where
  "type_error_primitive = JsError ''Cannot convert object to primitive value''"

fun join :: "string list \<Rightarrow> string" where
  "join [] = []"
| "join [x] = x"
| "join (x # y # ys) = x @ '','' @ join (y # ys)"

text \<open>
  What the program takes from the JavaScript engine and from its libraries, and does not
  define itself, is a parameter of the model: the decimal notation of a number,
  \<open>JSON.stringify\<close>, \<open>JSON.parse\<close>, the current time as an ISO string, evaluating
  the source text of an arithmetic expression (\<open>new Function(...)()\<close>), string to number
  conversion, double arithmetic, the body parser of the HTTP framework and the environment
  variable \<open>NODE_ENV\<close>. Every theorem below holds for every such runtime.
  \<open>JSON.stringify\<close> does not throw on a value that came out of a JSON parser.
\<close>

record js_runtime =
  rt_num_str :: "jsnum \<Rightarrow> string"
  rt_stringify :: "jsval \<Rightarrow> string"
  rt_parse :: "string \<Rightarrow> thrown + jsval"
  rt_now :: string
  rt_Function :: "string \<Rightarrow> thrown + jsval"
  rt_StringToNumber :: "string \<Rightarrow> jsnum"
  rt_add :: "jsnum \<Rightarrow> jsnum \<Rightarrow> jsnum"
  rt_sub :: "jsnum \<Rightarrow> jsnum \<Rightarrow> jsnum"
  rt_mul :: "jsnum \<Rightarrow> jsnum \<Rightarrow> jsnum"
  rt_div :: "jsnum \<Rightarrow> jsnum \<Rightarrow> jsnum"
  rt_bodyParser :: "string \<Rightarrow> thrown + jsval"
  rt_NODE_ENV :: jsval

text \<open>The string of a value whose conversion does not throw.\<close>

fun to_str :: "js_runtime \<Rightarrow> jsval \<Rightarrow> string" where
  "to_str rt Undefined = ''undefined''"
| "to_str rt JNull = ''null''"
| "to_str rt (JBool b) = (if b then ''true'' else ''false'')"
| "to_str rt (JNum n) = rt_num_str rt n"
| "to_str rt (JStr s) = s"
| "to_str rt (JArr xs) =
     join (map (\<lambda>x. if x = Undefined \<or> x = JNull then [] else to_str rt x) xs)"
| "to_str rt (JObj kvs) = ''[object Object]''"

definition js_ToString :: "js_runtime \<Rightarrow> jsval \<Rightarrow> thrown + string" where
  "js_ToString rt v = (if to_string_fails v then Inl type_error_primitive else Inr (to_str rt v))"

text \<open>
  \<open>Number(v)\<close>. An object or an array is converted to a primitive first (\<open>valueOf\<close>
  gives none, so by its string), which throws as above.
\<close>

definition js_Number :: "js_runtime \<Rightarrow> jsval \<Rightarrow> thrown + jsnum" where
  "js_Number rt v =
     (case v of
        Undefined \<Rightarrow> Inr NaN
      | JNull \<Rightarrow> Inr (Fin 0)
      | JBool b \<Rightarrow> Inr (Fin (if b then 1 else 0))
      | JNum n \<Rightarrow> Inr n
      | JStr s \<Rightarrow> Inr (rt_StringToNumber rt s)
      | JArr xs \<Rightarrow>
          (case js_ToString rt v of
             Inl e \<Rightarrow> Inl e
           | Inr s \<Rightarrow> Inr (rt_StringToNumber rt s))
      | JObj kvs \<Rightarrow>
          (case js_ToString rt v of
             Inl e \<Rightarrow> Inl e
           | Inr s \<Rightarrow> Inr (rt_StringToNumber rt s)))"

section \<open>JSON-RPC utilities\<close>

text \<open>
  The functions of \<open>utils/jsonrpc.ts\<close> (in the sources the second part of
  \<open>src/utils/logger.ts\<close>) and the error codes of \<open>src/types/mcp.ts\<close>.
\<close>

definition ParseError :: int where "ParseError = - 32700"
definition InvalidRequest :: int where "InvalidRequest = - 32600"
definition MethodNotFound :: int where "MethodNotFound = - 32601"
definition InvalidParams :: int where "InvalidParams = - 32602"
definition InternalError :: int where "InternalError = - 32603"
definition ServerError :: int where "ServerError = - 32000"
definition ApplicationError :: int where "ApplicationError = - 32500"

definition js_int :: "int \<Rightarrow> jsval" where
  "js_int n = JNum (Fin (of_int n))"

text \<open>
  A validated request as \<open>McpServer.handleRequest\<close> receives it. The field
  \<open>jsonrpc\<close> has the literal type \<open>'2.0'\<close> and is never read; \<open>req_id\<close> is
  \<open>Undefined\<close> when the message has no \<open>id\<close>.
\<close>

record JsonRpcRequest =
  req_id :: jsval
  req_method :: string
  req_params :: jsval

text \<open>
  A response envelope. \<open>result\<close> and \<open>error\<close> are \<open>None\<close> when the key
  is not set on the object.
\<close>

record JsonRpcResponse =
  jsonrpc :: string
  resp_id :: jsval
  result :: "jsval option"
  error :: "jsval option"

definition createJsonRpcResponse :: "jsval \<Rightarrow> jsval \<Rightarrow> jsval \<Rightarrow> JsonRpcResponse" where
  "createJsonRpcResponse i res err =
     (if truthy err
      then \<lparr>jsonrpc = ''2.0'', resp_id = i, result = None, error = Some err\<rparr>
      else \<lparr>jsonrpc = ''2.0'', resp_id = i, result = Some res, error = None\<rparr>)"

definition createJsonRpcError :: "int \<Rightarrow> string \<Rightarrow> jsval \<Rightarrow> jsval" where
  "createJsonRpcError code message data =
     JObj [(''code'', js_int code), (''message'', JStr message), (''data'', data)]"

definition createParseError :: "jsval \<Rightarrow> jsval" where
  "createParseError data = createJsonRpcError ParseError ''Parse error'' data"

definition createInvalidRequestError :: "jsval \<Rightarrow> jsval" where
  "createInvalidRequestError data = createJsonRpcError InvalidRequest ''Invalid Request'' data"

definition createMethodNotFoundError :: "string \<Rightarrow> jsval" where
  "createMethodNotFoundError m =
     createJsonRpcError MethodNotFound ''Method not found'' (JObj [(''method'', JStr m)])"

definition createInvalidParamsError :: "jsval \<Rightarrow> jsval" where
  "createInvalidParamsError data = createJsonRpcError InvalidParams ''Invalid params'' data"

definition createInternalError :: "jsval \<Rightarrow> jsval" where
  "createInternalError data = createJsonRpcError InternalError ''Internal error'' data"

fun is_object :: "jsval \<Rightarrow> bool" where
  "is_object JNull = True"
| "is_object (JArr xs) = True"
| "is_object (JObj kvs) = True"
| "is_object v = False"

fun is_string :: "jsval \<Rightarrow> bool" where
  "is_string (JStr s) = True"
| "is_string v = False"

fun is_number :: "jsval \<Rightarrow> bool" where
  "is_number (JNum n) = True"
| "is_number v = False"

definition isValidJsonRpcRequest :: "jsval \<Rightarrow> bool" where
  "isValidJsonRpcRequest obj \<longleftrightarrow>
     truthy obj \<and> is_object obj \<and> field obj ''jsonrpc'' = JStr ''2.0'' \<and>
     is_string (field obj ''method'') \<and>
     (field obj ''id'' = Undefined \<or> field obj ''id'' = JNull \<or>
      is_string (field obj ''id'') \<or> is_number (field obj ''id''))"

definition validateJsonRpcRequest :: "jsval \<Rightarrow> jsval" where
  "validateJsonRpcRequest obj =
     (if \<not> isValidJsonRpcRequest obj
      then createInvalidRequestError (JStr ''Invalid JSON-RPC 2.0 request format'')
      else obj)"

definition isNotification :: "JsonRpcRequest \<Rightarrow> bool" where
  "isNotification request \<longleftrightarrow> req_id request = Undefined"

definition formatErrorResponse :: "jsval \<Rightarrow> jsval \<Rightarrow> JsonRpcResponse" where
  "formatErrorResponse i err = createJsonRpcResponse i Undefined err"

definition formatSuccessResponse :: "jsval \<Rightarrow> jsval \<Rightarrow> JsonRpcResponse" where
  "formatSuccessResponse i res = createJsonRpcResponse i res Undefined"

section \<open>The logger\<close>

text \<open>
  Class \<open>Logger\<close> and the global \<open>logger\<close> of \<open>src/utils/logger.ts\<close>. Every
  logging method first evaluates \<open>shouldLog\<close>, which reads
  \<open>LOG_LEVELS[this.currentLevel]\<close>: the current level is converted to a property key,
  and that throws where the conversion to a string throws. \<open>setLevel\<close> stores what it
  is given. What a logging call prints is not modelled, only whether it throws.
\<close>

definition LOG_LEVELS :: "string \<rightharpoonup> nat" where
  "LOG_LEVELS =
     map_of [(''debug'', 0), (''info'', 1), (''notice'', 2), (''warning'', 3), (''error'', 4),
             (''critical'', 5), (''alert'', 6), (''emergency'', 7)]"

definition shouldLog :: "js_runtime \<Rightarrow> string \<Rightarrow> jsval \<Rightarrow> thrown + bool" where
  "shouldLog rt level current =
     (case js_ToString rt current of
        Inl e \<Rightarrow> Inl e
      | Inr key \<Rightarrow>
          Inr (case LOG_LEVELS level of
                 None \<Rightarrow> False
               | Some a \<Rightarrow> (case LOG_LEVELS key of None \<Rightarrow> False | Some b \<Rightarrow> b \<le> a)))"

section \<open>The dispatcher of the HTTP server\<close>

text \<open>
  Class \<open>McpServer\<close> of \<open>handlers/mcpHandler.ts\<close> (in the sources the second part of
  \<open>src/prompts/index.ts\<close>).

  The mutable part of the object: the fields \<open>capabilities\<close>, \<open>serverInfo\<close> and
  \<open>initialized\<close>, and the level of the global logger, which \<open>logging/setLevel\<close>
  sets.
\<close>

record McpState =
  capabilities :: jsval
  serverInfo :: jsval
  initialized :: bool
  currentLevel :: jsval

text \<open>
  A call \<open>logger.debug(...)\<close>, \<open>logger.info(...)\<close> or \<open>logger.error(...)\<close> of the
  global logger: the error it throws, if it throws.
\<close>

definition logger_log :: "js_runtime \<Rightarrow> string \<Rightarrow> McpState \<Rightarrow> thrown option" where
  "logger_log rt level st =
     (case shouldLog rt level (currentLevel st) of Inl e \<Rightarrow> Some e | Inr b \<Rightarrow> None)"

text \<open>The states in which the logger works: its level has a string.\<close>

definition logger_works :: "McpState \<Rightarrow> bool" where
  "logger_works st \<longleftrightarrow> \<not> to_string_fails (currentLevel st)"

text \<open>
  A method handler takes the parameters and the state, and returns a value or throws
  (a rejected promise is a throw at the \<open>await\<close>), with the state it leaves.
\<close>

type_synonym MethodHandler = "jsval \<Rightarrow> McpState \<Rightarrow> (thrown + jsval) \<times> McpState"

record McpServer =
  methodHandlers :: "string \<rightharpoonup> MethodHandler"
  state :: McpState

text \<open>The handler tables none of whose handlers stops the logger working.\<close>

definition handlers_keep_logger :: "(string \<rightharpoonup> MethodHandler) \<Rightarrow> bool" where
  "handlers_keep_logger table \<longleftrightarrow>
     (\<forall>name handler p st. table name = Some handler \<longrightarrow> logger_works st \<longrightarrow>
        logger_works (snd (handler p st)))"

text \<open>\<open>registerMethod\<close> stores the handler and then logs: the error thrown, if any.\<close>

definition registerMethod ::
  "js_runtime \<Rightarrow> string \<Rightarrow> MethodHandler \<Rightarrow> McpServer \<Rightarrow> thrown option \<times> McpServer" where
  "registerMethod rt m handler srv =
     (logger_log rt ''debug'' (state srv),
      srv\<lparr>methodHandlers := (methodHandlers srv)(m \<mapsto> handler)\<rparr>)"

text \<open>
  The \<open>try\<close> block of \<open>handleRequest\<close>: what it returns (a response, or \<open>None\<close>
  for \<open>null\<close>) or the value thrown in it, and the server it leaves.
\<close>

definition McpServer_try ::
  "js_runtime \<Rightarrow> JsonRpcRequest \<Rightarrow> McpServer \<Rightarrow> (thrown + JsonRpcResponse option) \<times> McpServer" where
  "McpServer_try rt request srv =
     (case methodHandlers srv (req_method request) of
        None \<Rightarrow>
          (let err = createMethodNotFoundError (req_method request) in
           if \<not> isNotification request
           then (Inr (Some (createJsonRpcResponse (req_id request) Undefined err)), srv)
           else (Inr None, srv))
      | Some handler \<Rightarrow>
          (case handler (req_params request) (state srv) of
             (Inl e, st) \<Rightarrow> (Inl e, srv\<lparr>state := st\<rparr>)
           | (Inr res, st) \<Rightarrow>
               if \<not> isNotification request
               then (let response = createJsonRpcResponse (req_id request) res Undefined in
                     case logger_log rt ''debug'' st of
                       Some e \<Rightarrow> (Inl e, srv\<lparr>state := st\<rparr>)
                     | None \<Rightarrow> (Inr (Some response), srv\<lparr>state := st\<rparr>))
               else (Inr None, srv\<lparr>state := st\<rparr>)))"

text \<open>
  \<open>handleRequest\<close>: it logs before the \<open>try\<close> and first thing in the \<open>catch\<close>;
  an error thrown by either call rejects the promise that \<open>handleRequest\<close> returns
  (\<open>Inl\<close>).
\<close>

definition McpServer_handleRequest ::
  "js_runtime \<Rightarrow> JsonRpcRequest \<Rightarrow> McpServer \<Rightarrow> (thrown + JsonRpcResponse option) \<times> McpServer" where
  "McpServer_handleRequest rt request srv =
     (case logger_log rt ''debug'' (state srv) of
        Some e \<Rightarrow> (Inl e, srv)
      | None \<Rightarrow>
          (case McpServer_try rt request srv of
             (Inr r, srv') \<Rightarrow> (Inr r, srv')
           | (Inl e, srv') \<Rightarrow>
               (case logger_log rt ''error'' (state srv') of
                  Some e' \<Rightarrow> (Inl e', srv')
                | None \<Rightarrow>
                    if \<not> isNotification request
                    then (let jsonRpcError = createInternalError
                                (JStr (if instanceof_Error e then error_message e
                                       else ''Unknown error''))
                          in (Inr (Some (createJsonRpcResponse (req_id request) Undefined
                                           jsonRpcError)), srv'))
                    else (Inr None, srv'))))"

subsection \<open>The default handlers\<close>

definition cannot_destructure :: "jsval \<Rightarrow> string \<Rightarrow> thrown" where
  "cannot_destructure v k =
     JsError (''Cannot destructure property '' @ [CHR 0x27] @ k @ [CHR 0x27] @ '' of ''
              @ [CHR 0x27] @ ''params'' @ [CHR 0x27] @ '' as it is ''
              @ (if v = JNull then ''null'' else ''undefined'') @ ''.'')"

definition handleInitialize :: "js_runtime \<Rightarrow> MethodHandler" where
  "handleInitialize rt params st =
     (case logger_log rt ''info'' st of
        Some e \<Rightarrow> (Inl e, st)
      | None \<Rightarrow>
          (Inr (JObj [(''protocolVersion'', JStr ''2024-11-05''),
                      (''capabilities'', capabilities st),
                      (''serverInfo'', serverInfo st)]),
           st\<lparr>initialized := True\<rparr>))"

definition handleInitialized :: "js_runtime \<Rightarrow> MethodHandler" where
  "handleInitialized rt params st =
     (case logger_log rt ''info'' st of
        Some e \<Rightarrow> (Inl e, st)
      | None \<Rightarrow> (Inr Undefined, st))"

definition handleListResources :: "js_runtime \<Rightarrow> MethodHandler" where
  "handleListResources rt params st =
     (case logger_log rt ''debug'' st of
        Some e \<Rightarrow> (Inl e, st)
      | None \<Rightarrow>
     (Inr (JObj [(''resources'', JArr [
        JObj [(''uri'', JStr ''file:///example.txt''),
              (''name'', JStr ''Example Text File''),
              (''description'', JStr ''An example text resource''),
              (''mimeType'', JStr ''text/plain'')],
        JObj [(''uri'', JStr ''http://example.com/api/data''),
              (''name'', JStr ''Example API Data''),
              (''description'', JStr ''Example data from an API endpoint''),
              (''mimeType'', JStr ''application/json'')]])]), st))"

definition handleReadResource :: "js_runtime \<Rightarrow> MethodHandler" where
  "handleReadResource rt params st =
     (case logger_log rt ''debug'' st of
        Some e \<Rightarrow> (Inl e, st)
      | None \<Rightarrow>
     (if params = Undefined \<or> params = JNull then (Inl (cannot_destructure params ''uri''), st)
      else
        (let uri = field params ''uri'' in
         if uri = JStr ''file:///example.txt''
         then (Inr (JObj [(''contents'', JArr [
                 JObj [(''uri'', uri), (''mimeType'', JStr ''text/plain''),
                       (''text'', JStr ''This is example content from a text file.'')]])]), st)
         else if uri = JStr ''http://example.com/api/data''
         then (Inr (JObj [(''contents'', JArr [
                 JObj [(''uri'', uri), (''mimeType'', JStr ''application/json''),
                       (''text'', JStr (rt_stringify rt
                          (JObj [(''message'', JStr ''Example API data''),
                                 (''timestamp'', JStr (rt_now rt))])))]])]), st)
         else
           (case js_ToString rt uri of
              Inl e \<Rightarrow> (Inl e, st)
            | Inr s \<Rightarrow> (Inl (JsError (''Resource not found: '' @ s)), st)))))"

definition handleListTools :: "js_runtime \<Rightarrow> MethodHandler" where
  "handleListTools rt params st =
     (case logger_log rt ''debug'' st of
        Some e \<Rightarrow> (Inl e, st)
      | None \<Rightarrow>
     (Inr (JObj [(''tools'', JArr [
        JObj [(''name'', JStr ''echo''),
              (''description'', JStr ''Echo back the provided text''),
              (''inputSchema'', JObj [
                 (''type'', JStr ''object''),
                 (''properties'', JObj [
                    (''text'', JObj [(''type'', JStr ''string''),
                                     (''description'', JStr ''The text to echo back'')])]),
                 (''required'', JArr [JStr ''text''])])],
        JObj [(''name'', JStr ''calculate''),
              (''description'', JStr ''Perform basic arithmetic calculations''),
              (''inputSchema'', JObj [
                 (''type'', JStr ''object''),
                 (''properties'', JObj [
                    (''expression'', JObj [
                       (''type'', JStr ''string''),
                       (''description'', JStr (''Mathematical expression to evaluate (e.g., ''
                          @ [CHR 0x22] @ ''2 + 3 * 4'' @ [CHR 0x22] @ '')''))])]),
                 (''required'', JArr [JStr ''expression''])])]])]), st))"

text \<open>
  The characters that the regular expression \<open>/[^0-9+\-*/().\s]/g\<close> leaves in place.
  A \<open>char\<close> is read as the code point of the same number, so \<open>\s\<close> is the seven
  white-space characters below U+0100.
\<close>

definition is_space :: "char \<Rightarrow> bool" where
  "is_space c \<longleftrightarrow>
     c \<in> set [CHR 0x09, CHR 0x0A, CHR 0x0B, CHR 0x0C, CHR 0x0D, CHR 0x20, CHR 0xA0]"

definition allowed_char :: "char \<Rightarrow> bool" where
  "allowed_char c \<longleftrightarrow> c \<in> set ''0123456789+-*/().'' \<or> is_space c"

fun isFinite :: "jsval \<Rightarrow> bool" where
  "isFinite (JNum (Fin r)) = True"
| "isFinite v = False"

text \<open>
  \<open>evaluateExpression\<close>. Its argument is whatever the caller read from the request; on
  anything but a string, \<open>expression.replace\<close> is not a function and the call throws.
\<close>

definition evaluateExpression :: "js_runtime \<Rightarrow> jsval \<Rightarrow> thrown + jsval" where
  "evaluateExpression rt expression =
     (case expression of
        JStr s \<Rightarrow>
          (let sanitized = filter allowed_char s in
           if sanitized = [] \<or> sanitized \<noteq> s
           then Inl (JsError ''Invalid characters in expression'')
           else
             (case (case rt_Function rt
                           ([CHR 0x22] @ ''use strict'' @ [CHR 0x22] @ ''; return (''
                            @ sanitized @ '')'') of
                      Inl e \<Rightarrow> Inl e
                    | Inr r \<Rightarrow>
                        if \<not> is_number r \<or> \<not> isFinite r
                        then Inl (JsError ''Result is not a valid number'')
                        else Inr r) of
                Inl e \<Rightarrow> Inl (JsError ''Invalid mathematical expression'')
              | Inr r \<Rightarrow> Inr r))
      | _ \<Rightarrow> Inl (JsError ''expression.replace is not a function''))"

definition handleCallTool :: "js_runtime \<Rightarrow> MethodHandler" where
  "handleCallTool rt params st =
     (case logger_log rt ''debug'' st of
        Some e \<Rightarrow> (Inl e, st)
      | None \<Rightarrow>
     (if params = Undefined \<or> params = JNull then (Inl (cannot_destructure params ''name''), st)
      else
        (let name = field params ''name''; args = field params ''arguments'' in
         if name = JStr ''echo''
         then (Inr (JObj [(''content'', JArr [
                 JObj [(''type'', JStr ''text''),
                       (''text'', js_or (field args ''text'') (JStr ''No text provided''))]])]),
               st)
         else if name = JStr ''calculate''
         then
           (case evaluateExpression rt (js_or (field args ''expression'') (JStr [])) of
              Inr r \<Rightarrow>
                (Inr (JObj [(''content'', JArr [
                   JObj [(''type'', JStr ''text''),
                         (''text'', JStr (''Result: '' @ to_str rt r))]])]), st)
            | Inl e \<Rightarrow>
                (Inr (JObj [(''content'', JArr [
                   JObj [(''type'', JStr ''text''),
                         (''text'', JStr (''Error: '' @
                            (if instanceof_Error e then error_message e
                             else ''Invalid expression'')))]]),
                  (''isError'', JBool True)]), st))
         else
           (case js_ToString rt name of
              Inl e \<Rightarrow> (Inl e, st)
            | Inr s \<Rightarrow> (Inl (JsError (''Unknown tool: '' @ s)), st)))))"

definition handleListPrompts :: "js_runtime \<Rightarrow> MethodHandler" where
  "handleListPrompts rt params st =
     (case logger_log rt ''debug'' st of
        Some e \<Rightarrow> (Inl e, st)
      | None \<Rightarrow>
     (Inr (JObj [(''prompts'', JArr [
        JObj [(''name'', JStr ''summarize''),
              (''description'', JStr ''Generate a summary of the provided text''),
              (''arguments'', JArr [
                 JObj [(''name'', JStr ''text''),
                       (''description'', JStr ''The text to summarize''),
                       (''required'', JBool True)],
                 JObj [(''name'', JStr ''max_words''),
                       (''description'', JStr ''Maximum number of words in the summary''),
                       (''required'', JBool False)]])]])]), st))"

definition handleGetPrompt :: "js_runtime \<Rightarrow> MethodHandler" where
  "handleGetPrompt rt params st =
     (case logger_log rt ''debug'' st of
        Some e \<Rightarrow> (Inl e, st)
      | None \<Rightarrow>
     (if params = Undefined \<or> params = JNull then (Inl (cannot_destructure params ''name''), st)
      else
        (let name = field params ''name''; args = field params ''arguments'' in
         if name = JStr ''summarize''
         then
           (let text = js_or (field args ''text'') (JStr []);
                maxWords = js_or (field args ''max_words'') (js_int 100)
            in case js_ToString rt maxWords of
                 Inl e \<Rightarrow> (Inl e, st)
               | Inr words \<Rightarrow>
                   (case js_ToString rt text of
                      Inl e \<Rightarrow> (Inl e, st)
                    | Inr body \<Rightarrow>
                        (Inr (JObj [
                           (''description'', JStr ''Prompt for text summarization''),
                           (''messages'', JArr [
                              JObj [(''role'', JStr ''user''),
                                    (''content'', JObj [
                                       (''type'', JStr ''text''),
                                       (''text'', JStr
                                          (''Please summarize the following text in no more than ''
                                           @ words @ '' words:''
                                           @ [CHR 0x0A, CHR 0x0A] @ body))])]])]), st)))
         else
           (case js_ToString rt name of
              Inl e \<Rightarrow> (Inl e, st)
            | Inr s \<Rightarrow> (Inl (JsError (''Unknown prompt: '' @ s)), st)))))"

text \<open>
  \<open>handleSetLevel\<close> stores the level unchecked, builds the message of its last logging
  call from it, and logs at the new level.
\<close>

definition handleSetLevel :: "js_runtime \<Rightarrow> MethodHandler" where
  "handleSetLevel rt params st =
     (case logger_log rt ''debug'' st of
        Some e \<Rightarrow> (Inl e, st)
      | None \<Rightarrow>
          (case get_prop params ''level'' of
             Inl e \<Rightarrow> (Inl e, st)
           | Inr level \<Rightarrow>
               (let st' = st\<lparr>currentLevel := level\<rparr> in
                case js_ToString rt level of
                  Inl e \<Rightarrow> (Inl e, st')
                | Inr s \<Rightarrow>
                    (case logger_log rt ''info'' st' of
                       Some e \<Rightarrow> (Inl e, st')
                     | None \<Rightarrow> (Inr Undefined, st')))))"

text \<open>\<open>setupDefaultHandlers\<close>: nine calls of \<open>registerMethod\<close>, in this order.\<close>

definition default_handlers :: "js_runtime \<Rightarrow> (string \<times> MethodHandler) list" where
  "default_handlers rt =
     [(''initialize'', handleInitialize rt),
      (''initialized'', handleInitialized rt),
      (''resources/list'', handleListResources rt),
      (''resources/read'', handleReadResource rt),
      (''tools/list'', handleListTools rt),
      (''tools/call'', handleCallTool rt),
      (''prompts/list'', handleListPrompts rt),
      (''prompts/get'', handleGetPrompt rt),
      (''logging/setLevel'', handleSetLevel rt)]"

fun register_all ::
  "js_runtime \<Rightarrow> (string \<times> MethodHandler) list \<Rightarrow> McpServer \<Rightarrow> thrown option \<times> McpServer" where
  "register_all rt [] srv = (None, srv)"
| "register_all rt ((m, handler) # rest) srv =
     (case registerMethod rt m handler srv of
        (Some e, srv') \<Rightarrow> (Some e, srv')
      | (None, srv') \<Rightarrow> register_all rt rest srv')"

definition setupDefaultHandlers :: "js_runtime \<Rightarrow> McpServer \<Rightarrow> thrown option \<times> McpServer" where
  "setupDefaultHandlers rt srv = register_all rt (default_handlers rt) srv"

text \<open>
  The constructor. \<open>blank_McpServer\<close> is the object before \<open>setupDefaultHandlers\<close>
  runs, the logger at its initial level \<open>info\<close>. No registration throws then, and the
  constructor returns the server that the registrations leave.
\<close>

definition blank_McpServer :: McpServer where
  "blank_McpServer =
       \<lparr>methodHandlers = Map.empty,
        state = \<lparr>capabilities = JObj [
                    (''logging'', JObj []),
                    (''resources'', JObj [(''subscribe'', JBool False),
                                          (''listChanged'', JBool False)]),
                    (''tools'', JObj [(''listChanged'', JBool False)]),
                    (''prompts'', JObj [(''listChanged'', JBool False)])],
                 serverInfo = JObj [(''name'', JStr ''mcp-server-express''),
                                    (''version'', JStr ''1.0.0'')],
                 initialized = False,
                 currentLevel = JStr ''info''\<rparr>\<rparr>"

definition new_McpServer :: "js_runtime \<Rightarrow> McpServer" where
  "new_McpServer rt = snd (setupDefaultHandlers rt blank_McpServer)"

section \<open>The stdio server\<close>

text \<open>
  Class \<open>MCPServer\<close> of \<open>server/MCPServer.ts\<close> (in the sources the second part of
  \<open>src/resources/index.ts\<close>).
\<close>

subsection \<open>Descriptors and registries\<close>

record Resource =
  uri :: string
  res_name :: string
  res_description :: "string option"
  mimeType :: "string option"

record Tool =
  tool_name :: string
  tool_description :: "string option"
  inputSchema :: jsval

record PromptArgument =
  arg_name :: string
  arg_description :: "string option"
  required :: "bool option"

record Prompt =
  prompt_name :: string
  prompt_description :: "string option"
  arguments :: "PromptArgument list option"

text \<open>The JavaScript object of a descriptor: an optional field that is not set has no key.\<close>

definition opt_entry :: "string \<Rightarrow> ('a \<Rightarrow> jsval) \<Rightarrow> 'a option \<Rightarrow> (string \<times> jsval) list" where
  "opt_entry k f x = (case x of None \<Rightarrow> [] | Some v \<Rightarrow> [(k, f v)])"

definition Resource_val :: "Resource \<Rightarrow> jsval" where
  "Resource_val r =
     JObj ([(''uri'', JStr (uri r)), (''name'', JStr (res_name r))]
           @ opt_entry ''description'' JStr (res_description r)
           @ opt_entry ''mimeType'' JStr (mimeType r))"

definition Tool_val :: "Tool \<Rightarrow> jsval" where
  "Tool_val t =
     JObj ([(''name'', JStr (tool_name t))]
           @ opt_entry ''description'' JStr (tool_description t)
           @ [(''inputSchema'', inputSchema t)])"

definition PromptArgument_val :: "PromptArgument \<Rightarrow> jsval" where
  "PromptArgument_val a =
     JObj ([(''name'', JStr (arg_name a))]
           @ opt_entry ''description'' JStr (arg_description a)
           @ opt_entry ''required'' JBool (required a))"

definition Prompt_val :: "Prompt \<Rightarrow> jsval" where
  "Prompt_val p =
     JObj ([(''name'', JStr (prompt_name p))]
           @ opt_entry ''description'' JStr (prompt_description p)
           @ opt_entry ''arguments'' (\<lambda>as. JArr (map PromptArgument_val as)) (arguments p))"

text \<open>
  A JavaScript \<open>Map\<close> with string keys is a list of entries with distinct keys, in insertion
  order: \<open>set\<close> replaces the value of a key in place or appends a new entry, \<open>get\<close>
  finds a key only if the argument is that string, \<open>values\<close> lists the values in order.
\<close>

definition Map_set :: "string \<Rightarrow> 'v \<Rightarrow> (string, 'v) alist \<Rightarrow> (string, 'v) alist" where
  "Map_set k v m = DAList.update k v m"

definition Map_get :: "(string, 'v) alist \<Rightarrow> jsval \<Rightarrow> 'v option" where
  "Map_get m k = (case k of JStr s \<Rightarrow> DAList.lookup m s | _ \<Rightarrow> None)"

definition Map_values :: "(string, 'v) alist \<Rightarrow> 'v list" where
  "Map_values m = map snd (DAList.impl_of m)"

record MCPServer =
  srv_initialized :: bool
  srv_capabilities :: jsval
  srv_serverInfo :: jsval
  resources :: "(string, Resource) alist"
  tools :: "(string, Tool) alist"
  prompts :: "(string, Prompt) alist"
  emitted :: "string list"

text \<open>The constructor.\<close>

definition new_MCPServer :: MCPServer where
  "new_MCPServer =
     \<lparr>srv_initialized = False,
      srv_capabilities = JObj [
        (''prompts'', JObj [(''listChanged'', JBool True)]),
        (''resources'', JObj [(''subscribe'', JBool True), (''listChanged'', JBool True)]),
        (''tools'', JObj [(''listChanged'', JBool True)]),
        (''logging'', JObj [])],
      srv_serverInfo = JObj [(''name'', JStr ''mcp-server''), (''version'', JStr ''1.0.0'')],
      resources = DAList.empty,
      tools = DAList.empty,
      prompts = DAList.empty,
      emitted = []\<rparr>"

definition emit :: "string \<Rightarrow> MCPServer \<Rightarrow> MCPServer" where
  "emit event s = s\<lparr>emitted := emitted s @ [event]\<rparr>"

definition registerResource :: "Resource \<Rightarrow> MCPServer \<Rightarrow> MCPServer" where
  "registerResource resource s =
     emit ''resources/list_changed'' (s\<lparr>resources := Map_set (uri resource) resource (resources s)\<rparr>)"

definition registerTool :: "Tool \<Rightarrow> MCPServer \<Rightarrow> MCPServer" where
  "registerTool tool s =
     emit ''tools/list_changed'' (s\<lparr>tools := Map_set (tool_name tool) tool (tools s)\<rparr>)"

definition registerPrompt :: "Prompt \<Rightarrow> MCPServer \<Rightarrow> MCPServer" where
  "registerPrompt prompt s =
     emit ''prompts/list_changed'' (s\<lparr>prompts := Map_set (prompt_name prompt) prompt (prompts s)\<rparr>)"

text \<open>
  The registry of tools is only written by \<open>registerTool\<close>, which stores a descriptor
  under its own name: every key is the name of its descriptor.
\<close>

definition tools_keyed :: "MCPServer \<Rightarrow> bool" where
  "tools_keyed s \<longleftrightarrow> list_all (\<lambda>(k, t). k = tool_name t) (DAList.impl_of (tools s))"

subsection \<open>The operations\<close>

definition createError :: "int \<Rightarrow> string \<Rightarrow> jsval" where
  "createError code message =
     JObj [(''code'', js_int code), (''message'', JStr message), (''data'', Undefined)]"

definition initialize :: "js_runtime \<Rightarrow> jsval \<Rightarrow> MCPServer \<Rightarrow> (thrown + jsval) \<times> MCPServer" where
  "initialize rt params s =
     (if srv_initialized s
      then (Inl (Thrown (createError (- 32600) ''Already initialized'')), s)
      else
        (case get_prop params ''protocolVersion'' of
           Inl e \<Rightarrow> (Inl e, s)
         | Inr v \<Rightarrow>
             if v \<noteq> JStr ''2024-11-05''
             then (case js_ToString rt v of
                     Inl e \<Rightarrow> (Inl e, s)
                   | Inr str \<Rightarrow>
                       (Inl (Thrown (createError (- 32602)
                                       (''Unsupported protocol version: '' @ str))), s))
             else (Inr (JObj [(''protocolVersion'', JStr ''2024-11-05''),
                              (''capabilities'', srv_capabilities s),
                              (''serverInfo'', srv_serverInfo s)]),
                   s\<lparr>srv_initialized := True\<rparr>)))"

definition listPrompts :: "MCPServer \<Rightarrow> jsval" where
  "listPrompts s = JObj [(''prompts'', JArr (map Prompt_val (Map_values (prompts s))))]"

definition getPrompt :: "js_runtime \<Rightarrow> jsval \<Rightarrow> MCPServer \<Rightarrow> thrown + jsval" where
  "getPrompt rt params s =
     (case get_prop params ''name'' of
        Inl e \<Rightarrow> Inl e
      | Inr n \<Rightarrow>
          (case Map_get (prompts s) n of
             None \<Rightarrow>
               (case js_ToString rt n of
                  Inl e \<Rightarrow> Inl e
                | Inr str \<Rightarrow> Inl (Thrown (createError (- 32602) (''Prompt not found: '' @ str))))
           | Some prompt \<Rightarrow>
               (case js_ToString rt n of
                  Inl e \<Rightarrow> Inl e
                | Inr str \<Rightarrow>
                    (let content = JObj [
                           (''type'', JStr ''text''),
                           (''text'', JStr (''This is the '' @ str
                              @ '' prompt with arguments: ''
                              @ rt_stringify rt (js_or (field params ''arguments'') (JObj []))))]
                     in Inr (JObj [
                          (''description'', (case prompt_description prompt of
                                               None \<Rightarrow> Undefined | Some d \<Rightarrow> JStr d)),
                          (''messages'', JArr [JObj [(''role'', JStr ''user''),
                                                     (''content'', content)]])])))))"

definition listResources :: "MCPServer \<Rightarrow> jsval" where
  "listResources s = JObj [(''resources'', JArr (map Resource_val (Map_values (resources s))))]"

definition readResource :: "js_runtime \<Rightarrow> jsval \<Rightarrow> MCPServer \<Rightarrow> thrown + jsval" where
  "readResource rt params s =
     (case get_prop params ''uri'' of
        Inl e \<Rightarrow> Inl e
      | Inr u \<Rightarrow>
          (case Map_get (resources s) u of
             None \<Rightarrow>
               (case js_ToString rt u of
                  Inl e \<Rightarrow> Inl e
                | Inr str \<Rightarrow>
                    Inl (Thrown (createError (- 32602) (''Resource not found: '' @ str))))
           | Some resource \<Rightarrow>
               (let content = JObj [
                      (''type'', JStr ''text''),
                      (''text'', JStr (''Content of resource: '' @ res_name resource
                         @ [CHR 0x0A] @ ''URI: '' @ uri resource
                         @ [CHR 0x0A] @ ''Description: ''
                         @ (case res_description resource of
                              None \<Rightarrow> ''No description''
                            | Some d \<Rightarrow> if d = [] then ''No description'' else d)))]
                in Inr (JObj [(''contents'', JArr [content])]))))"

definition listTools :: "MCPServer \<Rightarrow> jsval" where
  "listTools s = JObj [(''tools'', JArr (map Tool_val (Map_values (tools s))))]"

definition num_str :: "js_runtime \<Rightarrow> jsnum \<Rightarrow> string" where
  "num_str rt n = rt_num_str rt n"

text \<open>
  \<open>executeTool\<close>: the text of the result, or the error thrown while it is built. In the
  branch \<open>calculate\<close> both operands are converted by \<open>Number\<close> before the operation
  is looked at.
\<close>

definition executeTool :: "js_runtime \<Rightarrow> jsval \<Rightarrow> jsval \<Rightarrow> thrown + string" where
  "executeTool rt toolName args =
     (if toolName = JStr ''echo''
      then (case js_ToString rt (js_or (field args ''message'') (JStr ''No message provided'')) of
              Inl e \<Rightarrow> Inl e
            | Inr str \<Rightarrow> Inr (''Echo: '' @ str))
      else if toolName = JStr ''calculate''
      then
        (let operation = field args ''operation'' in
         case js_Number rt (field args ''a'') of
           Inl e \<Rightarrow> Inl e
         | Inr numA \<Rightarrow>
             (case js_Number rt (field args ''b'') of
                Inl e \<Rightarrow> Inl e
              | Inr numB \<Rightarrow>
                  if operation = JStr ''add''
                  then Inr (num_str rt numA @ '' + '' @ num_str rt numB @ '' = ''
                            @ num_str rt (rt_add rt numA numB))
                  else if operation = JStr ''subtract''
                  then Inr (num_str rt numA @ '' - '' @ num_str rt numB @ '' = ''
                            @ num_str rt (rt_sub rt numA numB))
                  else if operation = JStr ''multiply''
                  then Inr (num_str rt numA @ '' * '' @ num_str rt numB @ '' = ''
                            @ num_str rt (rt_mul rt numA numB))
                  else if operation = JStr ''divide''
                  then (if numB \<noteq> Fin 0
                        then Inr (num_str rt numA @ '' / '' @ num_str rt numB @ '' = ''
                                  @ num_str rt (rt_div rt numA numB))
                        else Inr ''Error: Division by zero'')
                  else Inr ''Error: Unknown operation''))
      else if toolName = JStr ''timestamp''
      then Inr (''Current timestamp: '' @ rt_now rt)
      else (case js_ToString rt toolName of
              Inl e \<Rightarrow> Inl e
            | Inr str \<Rightarrow> Inr (''Tool '' @ str @ '' executed with arguments: ''
                               @ rt_stringify rt args)))"

definition callTool :: "js_runtime \<Rightarrow> jsval \<Rightarrow> MCPServer \<Rightarrow> thrown + jsval" where
  "callTool rt params s =
     (case get_prop params ''name'' of
        Inl e \<Rightarrow> Inl e
      | Inr n \<Rightarrow>
          (case Map_get (tools s) n of
             None \<Rightarrow>
               (case js_ToString rt n of
                  Inl e \<Rightarrow> Inl e
                | Inr str \<Rightarrow> Inl (Thrown (createError (- 32602) (''Tool not found: '' @ str))))
           | Some tool \<Rightarrow>
               (case executeTool rt n (js_or (field params ''arguments'') (JObj [])) of
                  Inl e \<Rightarrow> Inl e
                | Inr res \<Rightarrow>
                    Inr (JObj [(''content'', JArr [JObj [(''type'', JStr ''text''),
                                                         (''text'', JStr res)]])]))))"

subsection \<open>The dispatcher\<close>

text \<open>
  \<open>MCPServer_try\<close> is the \<open>try\<close> block of \<open>handleRequest\<close>: a response, or the
  value thrown. \<open>request\<close> is what \<open>JSON.parse\<close> gave; nothing validates it.
\<close>

definition respond :: "jsval \<Rightarrow> (thrown + jsval) \<times> MCPServer \<Rightarrow> (thrown + JsonRpcResponse) \<times> MCPServer" where
  "respond request r =
     (case r of
        (Inl e, s) \<Rightarrow> (Inl e, s)
      | (Inr res, s) \<Rightarrow>
          (Inr \<lparr>jsonrpc = ''2.0'', resp_id = field request ''id'',
                result = Some res, error = None\<rparr>, s))"

definition MCPServer_try ::
  "js_runtime \<Rightarrow> jsval \<Rightarrow> MCPServer \<Rightarrow> (thrown + JsonRpcResponse) \<times> MCPServer" where
  "MCPServer_try rt request s =
     (case get_prop request ''method'' of
        Inl e \<Rightarrow> (Inl e, s)
      | Inr m \<Rightarrow>
          if m = JStr ''initialize''
          then respond request (initialize rt (field request ''params'') s)
          else if m = JStr ''notifications/initialized''
          then (Inr \<lparr>jsonrpc = ''2.0'', resp_id = field request ''id'',
                      result = Some JNull, error = None\<rparr>, s)
          else if m = JStr ''prompts/list''
          then respond request (Inr (listPrompts s), s)
          else if m = JStr ''prompts/get''
          then respond request (getPrompt rt (field request ''params'') s, s)
          else if m = JStr ''resources/list''
          then respond request (Inr (listResources s), s)
          else if m = JStr ''resources/read''
          then respond request (readResource rt (field request ''params'') s, s)
          else if m = JStr ''tools/list''
          then respond request (Inr (listTools s), s)
          else if m = JStr ''tools/call''
          then respond request (callTool rt (field request ''params'') s, s)
          else (case js_ToString rt m of
                  Inl e \<Rightarrow> (Inl e, s)
                | Inr str \<Rightarrow>
                    (Inl (Thrown (createError (- 32601) (''Method not found: '' @ str))), s)))"

text \<open>
  The \<open>catch\<close> block forwards the thrown value only if it is an \<open>Error\<close> instance
  that has a \<open>code\<close>; an \<open>Error\<close> built by \<open>new Error\<close> or by the engine has
  none.
\<close>

fun code_in :: "thrown \<Rightarrow> bool" where
  "code_in (JsError m) = False"
| "code_in (Thrown v) = has_key ''code'' v"

fun thrown_value :: "thrown \<Rightarrow> jsval" where
  "thrown_value (JsError m) = JObj [(''message'', JStr m)]"
| "thrown_value (Thrown v) = v"

definition MCPServer_handleRequest ::
  "js_runtime \<Rightarrow> jsval \<Rightarrow> MCPServer \<Rightarrow> (thrown + JsonRpcResponse) \<times> MCPServer" where
  "MCPServer_handleRequest rt request s =
     (case MCPServer_try rt request s of
        (Inr response, s') \<Rightarrow> (Inr response, s')
      | (Inl e, s') \<Rightarrow>
          (case get_prop request ''id'' of
             Inl e' \<Rightarrow> (Inl e', s')
           | Inr i \<Rightarrow>
               (Inr \<lparr>jsonrpc = ''2.0'', resp_id = i, result = None,
                     error = Some (if instanceof_Error e \<and> code_in e then thrown_value e
                                   else createError (- 32603)
                                          (if instanceof_Error e then error_message e
                                           else ''Internal error''))\<rparr>, s')))"

section \<open>The stdio transport\<close>

text \<open>
  Class \<open>StdioTransport\<close> of \<open>index.ts\<close> (in the sources the second part of
  \<open>src/tools/index.ts\<close>).
\<close>

text \<open>\<open>setupServer\<close>. In the composition the rightmost registration runs first.\<close>

definition setupServer :: "MCPServer \<Rightarrow> MCPServer" where
  "setupServer =
     registerPrompt \<lparr>prompt_name = ''analyze'',
        prompt_description = Some ''Perform analysis on the provided data'',
        arguments = Some [
          \<lparr>arg_name = ''data'', arg_description = Some ''The data to analyze'',
           required = Some True\<rparr>,
          \<lparr>arg_name = ''type'', arg_description = Some ''Type of analysis to perform'',
           required = Some False\<rparr>]\<rparr> \<circ>
     registerPrompt \<lparr>prompt_name = ''summarize'',
        prompt_description = Some ''Generate a summary of the provided content'',
        arguments = Some [
          \<lparr>arg_name = ''content'', arg_description = Some ''The content to summarize'',
           required = Some True\<rparr>,
          \<lparr>arg_name = ''length'',
           arg_description = Some ''Desired summary length (short, medium, long)'',
           required = Some False\<rparr>]\<rparr> \<circ>
     registerTool \<lparr>tool_name = ''timestamp'',
        tool_description = Some ''Get the current timestamp'',
        inputSchema = JObj [(''type'', JStr ''object''), (''properties'', JObj []),
                            (''additionalProperties'', JBool False)]\<rparr> \<circ>
     registerTool \<lparr>tool_name = ''calculate'',
        tool_description = Some ''Perform basic mathematical operations'',
        inputSchema = JObj [
          (''type'', JStr ''object''),
          (''properties'', JObj [
             (''operation'', JObj [
                (''type'', JStr ''string''),
                (''enum'', JArr [JStr ''add'', JStr ''subtract'', JStr ''multiply'',
                                 JStr ''divide'']),
                (''description'', JStr ''The mathematical operation to perform'')]),
             (''a'', JObj [(''type'', JStr ''number''), (''description'', JStr ''First operand'')]),
             (''b'', JObj [(''type'', JStr ''number''),
                          (''description'', JStr ''Second operand'')])]),
          (''required'', JArr [JStr ''operation'', JStr ''a'', JStr ''b''])]\<rparr> \<circ>
     registerTool \<lparr>tool_name = ''echo'',
        tool_description = Some ''Echo back the provided message'',
        inputSchema = JObj [
          (''type'', JStr ''object''),
          (''properties'', JObj [
             (''message'', JObj [(''type'', JStr ''string''),
                                 (''description'', JStr ''The message to echo back'')])]),
          (''required'', JArr [JStr ''message''])]\<rparr> \<circ>
     registerResource \<lparr>uri = ''config://server-info'', res_name = ''Server Information'',
        res_description = Some ''Information about this MCP server'',
        mimeType = Some ''application/json''\<rparr> \<circ>
     registerResource \<lparr>uri = ''file://example.txt'', res_name = ''Example Text File'',
        res_description = Some ''A sample text resource'',
        mimeType = Some ''text/plain''\<rparr>"

text \<open>\<open>line.trim()\<close>.\<close>

definition trim :: "string \<Rightarrow> string" where
  "trim line = rev (dropWhile is_space (rev (dropWhile is_space line)))"

definition parseErrorResponse :: "thrown \<Rightarrow> JsonRpcResponse" where
  "parseErrorResponse e =
     \<lparr>jsonrpc = ''2.0'', resp_id = JNull, result = None,
      error = Some (JObj [
        (''code'', js_int (- 32700)),
        (''message'', JStr ''Parse error''),
        (''data'', JStr (if instanceof_Error e then error_message e else ''Unknown error''))])\<rparr>"

text \<open>
  The handler of the \<open>line\<close> event, run to its end. The state is the server and the
  responses written to standard output so far, one line each.
\<close>

definition onLine ::
  "js_runtime \<Rightarrow> string \<Rightarrow> MCPServer \<times> JsonRpcResponse list \<Rightarrow> MCPServer \<times> JsonRpcResponse list" where
  "onLine rt line io =
     (case io of (s, out) \<Rightarrow>
        (let trimmed = trim line in
         if trimmed = [] then (s, out)
         else
           (case rt_parse rt trimmed of
              Inl e \<Rightarrow> (s, out @ [parseErrorResponse e])
            | Inr request \<Rightarrow>
                (case MCPServer_handleRequest rt request s of
                   (Inl e, s') \<Rightarrow> (s', out @ [parseErrorResponse e])
                 | (Inr response, s') \<Rightarrow>
                     (case get_prop request ''id'' of
                        Inl e \<Rightarrow> (s', out @ [parseErrorResponse e])
                      | Inr i \<Rightarrow> if i \<noteq> Undefined then (s', out @ [response]) else (s', out))))))"

text \<open>The constructor of the transport.\<close>

definition new_StdioTransport :: "MCPServer \<times> JsonRpcResponse list" where
  "new_StdioTransport = (setupServer new_MCPServer, [])"

section \<open>The HTTP transport\<close>

text \<open>Class \<open>ExpressMcpServer\<close> of \<open>src/server.ts\<close>.\<close>

datatype http_body =
    NoBody
  | JsonResponse JsonRpcResponse
  | JsonResponses "JsonRpcResponse list"
  | JsonValue jsval

record HttpResponse =
  status :: nat
  body :: http_body

text \<open>
  \<open>handleRequest\<close> is called with the validated object itself; these are the three fields
  it reads from it.
\<close>

definition as_request :: "jsval \<Rightarrow> JsonRpcRequest" where
  "as_request obj =
     \<lparr>req_id = field obj ''id'',
      req_method = (case field obj ''method'' of JStr m \<Rightarrow> m | _ \<Rightarrow> []),
      req_params = field obj ''params''\<rparr>"

text \<open>
  The logger of this class, \<open>serverLogger\<close>, is a child of the global logger: it took
  the level the global logger had when the server was constructed and keeps it, so its
  calls do not throw and are left out.

  The loop over the members of the body. \<open>validateJsonRpcRequest\<close> does not throw; a
  rejected \<open>handleRequest\<close> is caught in the loop and answered with an InvalidRequest
  entry.
\<close>

fun processRequests ::
  "js_runtime \<Rightarrow> jsval list \<Rightarrow> McpServer \<Rightarrow> JsonRpcResponse list \<Rightarrow>
     JsonRpcResponse list \<times> McpServer" where
  "processRequests rt [] srv responses = (responses, srv)"
| "processRequests rt (requestData # rest) srv responses =
     (let validationResult = validateJsonRpcRequest requestData in
      if has_key ''code'' validationResult
      then processRequests rt rest srv
             (responses @ [formatErrorResponse (js_or (field requestData ''id'') JNull)
                                               validationResult])
      else
        (case McpServer_handleRequest rt (as_request validationResult) srv of
           (Inr (Some response), srv') \<Rightarrow> processRequests rt rest srv' (responses @ [response])
         | (Inr None, srv') \<Rightarrow> processRequests rt rest srv' responses
         | (Inl e, srv') \<Rightarrow>
             (let errorResponse = formatErrorResponse
                    (js_or (field requestData ''id'') JNull)
                    (createInvalidRequestError
                       (JStr (if instanceof_Error e then error_message e
                              else ''Unknown error'')))
              in processRequests rt rest srv' (responses @ [errorResponse]))))"

text \<open>
  \<open>handleMcpRequest\<close> on the parsed body. Nothing in its outer \<open>try\<close> throws outside
  the loop, so its \<open>catch\<close> (status 400 with a ParseError envelope) is never entered.
\<close>

definition handleMcpRequest ::
  "js_runtime \<Rightarrow> jsval \<Rightarrow> McpServer \<Rightarrow> HttpResponse \<times> McpServer" where
  "handleMcpRequest rt b srv =
     (let isBatch = (case b of JArr xs \<Rightarrow> True | _ \<Rightarrow> False);
          requests = (case b of JArr xs \<Rightarrow> xs | _ \<Rightarrow> [b])
      in case processRequests rt requests srv [] of
           (responses, srv') \<Rightarrow>
             if isBatch then (\<lparr>status = 200, body = JsonResponses responses\<rparr>, srv')
             else (case responses of
                     r # rs \<Rightarrow> (\<lparr>status = 200, body = JsonResponse r\<rparr>, srv')
                   | [] \<Rightarrow> (\<lparr>status = 204, body = NoBody\<rparr>, srv')))"

text \<open>The global error handler that \<open>setupErrorHandling\<close> installs.\<close>

definition errorHandler :: "js_runtime \<Rightarrow> thrown \<Rightarrow> HttpResponse" where
  "errorHandler rt e =
     \<lparr>status = 500,
      body = JsonValue (JObj [
        (''error'', JStr ''Internal Server Error''),
        (''message'', if rt_NODE_ENV rt = JStr ''development'' then message_of e
                      else JStr ''An unexpected error occurred'')])\<rparr>"

text \<open>
  A \<open>POST /mcp\<close> through the middleware chain that the constructor assembles: the body
  parser \<open>express.json\<close> of \<open>setupMiddleware\<close> runs before the route; when it cannot
  parse the body it passes its error on, the framework skips the route and the 404 handler
  (neither takes an error), and the error reaches the global error handler.
\<close>

definition post_mcp :: "js_runtime \<Rightarrow> string \<Rightarrow> McpServer \<Rightarrow> HttpResponse \<times> McpServer" where
  "post_mcp rt raw srv =
     (case rt_bodyParser rt raw of
        Inl e \<Rightarrow> (errorHandler rt e, srv)
      | Inr b \<Rightarrow> handleMcpRequest rt b srv)"

section \<open>A runtime and messages for the worked examples\<close>

text \<open>
  The examples below need one concrete runtime. Its JSON parser reads the one line the
  examples send and reports a syntax error on every other text; the examples print no
  number, evaluate no expression and do no arithmetic.
\<close>

definition notification_line :: string where
  \<open>notification_line = ''{"jsonrpc":"2.0","method":"notifications/initialized"}''\<close>

definition notification_msg :: jsval where
  "notification_msg =
     JObj [(''jsonrpc'', JStr ''2.0''), (''method'', JStr ''notifications/initialized'')]"

definition sample_parse :: "string \<Rightarrow> thrown + jsval" where
  "sample_parse text =
     (if text = notification_line then Inr notification_msg
      else Inl (JsError ''Unexpected token in JSON''))"

definition sample_runtime :: js_runtime where
  "sample_runtime =
     \<lparr>rt_num_str = (\<lambda>n. ''NaN''),
      rt_stringify = (\<lambda>v. ''{}''),
      rt_parse = sample_parse,
      rt_now = ''2024-11-05T00:00:00.000Z'',
      rt_Function = (\<lambda>src. Inl (JsError ''Unexpected end of input'')),
      rt_StringToNumber = (\<lambda>s. NaN),
      rt_add = (\<lambda>a b. NaN),
      rt_sub = (\<lambda>a b. NaN),
      rt_mul = (\<lambda>a b. NaN),
      rt_div = (\<lambda>a b. NaN),
      rt_bodyParser = sample_parse,
      rt_NODE_ENV = Undefined\<rparr>"

definition initialize_params :: jsval where
  "initialize_params =
     JObj [(''protocolVersion'', JStr ''2024-11-05''),
           (''capabilities'', JObj []),
           (''clientInfo'', JObj [(''name'', JStr ''test-client''),
                                  (''version'', JStr ''1.0.0'')])]"

definition initialize_msg :: jsval where
  "initialize_msg =
     JObj [(''jsonrpc'', JStr ''2.0''), (''id'', js_int 1), (''method'', JStr ''initialize''),
           (''params'', initialize_params)]"

definition initialize_request :: JsonRpcRequest where
  "initialize_request =
     \<lparr>req_id = js_int 1, req_method = ''initialize'', req_params = initialize_params\<rparr>"

definition old_version_params :: jsval where
  "old_version_params = JObj [(''protocolVersion'', JStr ''1999-01-01'')]"

definition old_version_msg :: jsval where
  "old_version_msg =
     JObj [(''jsonrpc'', JStr ''2.0''), (''id'', js_int 1), (''method'', JStr ''initialize''),
           (''params'', old_version_params)]"

definition missing_resource_params :: jsval where
  "missing_resource_params = JObj [(''uri'', JStr ''file:///missing.txt'')]"

definition missing_resource_msg :: jsval where
  "missing_resource_msg =
     JObj [(''jsonrpc'', JStr ''2.0''), (''id'', js_int 5), (''method'', JStr ''resources/read''),
           (''params'', missing_resource_params)]"

definition missing_resource_request :: JsonRpcRequest where
  "missing_resource_request =
     \<lparr>req_id = js_int 5, req_method = ''resources/read'',
      req_params = missing_resource_params\<rparr>"

definition bad_expression_params :: jsval where
  "bad_expression_params =
     JObj [(''name'', JStr ''calculate''),
           (''arguments'', JObj [(''expression'', JStr ''2 + abc'')])]"

definition bad_expression_request :: JsonRpcRequest where
  "bad_expression_request =
     \<lparr>req_id = js_int 3, req_method = ''tools/call'', req_params = bad_expression_params\<rparr>"

definition flagged_notification :: jsval where
  "flagged_notification =
     JObj [(''jsonrpc'', JStr ''2.0''), (''method'', JStr ''initialized''), (''code'', js_int 1)]"

definition echo_tool :: Tool where
  "echo_tool =
     \<lparr>tool_name = ''echo'', tool_description = Some ''Echo back the provided message'',
      inputSchema = JObj [(''type'', JStr ''object'')]\<rparr>"

definition echo_tool_v2 :: Tool where
  "echo_tool_v2 =
     \<lparr>tool_name = ''echo'', tool_description = None,
      inputSchema = JObj [(''type'', JStr ''object''), (''required'', JArr [JStr ''message''])]\<rparr>"

definition tools_list_msg :: jsval where
  "tools_list_msg =
     JObj [(''jsonrpc'', JStr ''2.0''), (''id'', js_int 2), (''method'', JStr ''tools/list'')]"

definition divide_msg :: jsval where
  "divide_msg =
     JObj [(''jsonrpc'', JStr ''2.0''), (''id'', js_int 3), (''method'', JStr ''tools/call''),
           (''params'', JObj [
              (''name'', JStr ''calculate''),
              (''arguments'', JObj [(''operation'', JStr ''divide''),
                                    (''a'', JNum (Fin 7)), (''b'', JNum (Fin 0))])])]"

definition bad_expression_msg :: jsval where
  "bad_expression_msg =
     JObj [(''jsonrpc'', JStr ''2.0''), (''id'', js_int 3), (''method'', JStr ''tools/call''),
           (''params'', bad_expression_params)]"

text \<open>A level that has no string: an object that owns a key \<open>toString\<close>.\<close>

definition corrupt_level :: jsval where
  "corrupt_level = JObj [(''toString'', js_int 1)]"

definition set_level_notification :: jsval where
  "set_level_notification =
     JObj [(''jsonrpc'', JStr ''2.0''), (''method'', JStr ''logging/setLevel''),
           (''params'', JObj [(''level'', corrupt_level)])]"

definition set_level_msg :: jsval where
  "set_level_msg =
     JObj [(''jsonrpc'', JStr ''2.0''), (''id'', js_int 1), (''method'', JStr ''logging/setLevel''),
           (''params'', JObj [(''level'', corrupt_level)])]"

section \<open>The logger and the constructed server\<close>

lemma logger_log_works:
  assumes "logger_works st"
  shows "logger_log rt level st = None"
  using assms by (simp add: logger_log_def shouldLog_def js_ToString_def logger_works_def)

lemma logger_log_fails:
  assumes "\<not> logger_works st"
  shows "logger_log rt level st = Some (JsError ''Cannot convert object to primitive value'')"
  using assms
  by (simp add: logger_log_def shouldLog_def js_ToString_def logger_works_def
        type_error_primitive_def)

lemmas constructor_defs =
  new_McpServer_def blank_McpServer_def setupDefaultHandlers_def default_handlers_def
  registerMethod_def logger_log_def shouldLog_def js_ToString_def

lemma constructor_does_not_throw: "fst (setupDefaultHandlers rt blank_McpServer) = None"
  by (simp add: constructor_defs)

lemma new_McpServer_handlers:
  "methodHandlers (new_McpServer rt) ''initialize'' = Some (handleInitialize rt)"
  "methodHandlers (new_McpServer rt) ''resources/read'' = Some (handleReadResource rt)"
  "methodHandlers (new_McpServer rt) ''tools/call'' = Some (handleCallTool rt)"
  "methodHandlers (new_McpServer rt) ''logging/setLevel'' = Some (handleSetLevel rt)"
  by (simp_all add: constructor_defs)

lemma new_McpServer_state:
  "currentLevel (state (new_McpServer rt)) = JStr ''info''"
  "initialized (state (new_McpServer rt)) = False"
  by (simp_all add: constructor_defs)

lemma new_McpServer_logger_works: "logger_works (state (new_McpServer rt))"
  by (simp add: logger_works_def new_McpServer_state)

text \<open>
  What \<open>handleRequest\<close> of the HTTP server returns for a request with \<open>id\<close> while the
  logger works before and after the handler.
\<close>

lemma McpServer_returns_result:
  assumes "logger_works (state srv)"
    and "methodHandlers srv (req_method request) = Some handler"
    and "handler (req_params request) (state srv) = (Inr res, st)"
    and "logger_works st" and "\<not> isNotification request"
  shows "McpServer_handleRequest rt request srv =
           (Inr (Some (createJsonRpcResponse (req_id request) res Undefined)),
            srv\<lparr>state := st\<rparr>)"
  using assms
  by (simp add: McpServer_handleRequest_def McpServer_try_def logger_log_works)

lemma McpServer_returns_fault:
  assumes "logger_works (state srv)"
    and "methodHandlers srv (req_method request) = Some handler"
    and "handler (req_params request) (state srv) = (Inl e, st)"
    and "logger_works st" and "\<not> isNotification request"
  shows "McpServer_handleRequest rt request srv =
           (Inr (Some (createJsonRpcResponse (req_id request) Undefined
                         (createInternalError
                            (JStr (if instanceof_Error e then error_message e
                                   else ''Unknown error''))))),
            srv\<lparr>state := st\<rparr>)"
  using assms
  by (simp add: McpServer_handleRequest_def McpServer_try_def logger_log_works)

lemma McpServer_rejects_without_logger:
  assumes "\<not> logger_works (state srv)"
  shows "McpServer_handleRequest rt request srv =
           (Inl (JsError ''Cannot convert object to primitive value''), srv)"
  using assms by (simp add: McpServer_handleRequest_def logger_log_fails)

section \<open>Notifications\<close>

lemma MCPServer_handleRequest_returns:
  assumes "get_prop request ''id'' = Inr i"
  shows "\<exists>response s'. MCPServer_handleRequest rt request s = (Inr response, s')"
  using assms by (simp add: MCPServer_handleRequest_def split: prod.splits sum.splits)

text \<open>
  The stdio transport writes nothing for a line that parses to a message without \<open>id\<close>.
\<close>

lemma stdio_notification_writes_nothing:
  assumes "rt_parse rt (trim line) = Inr msg" and "get_prop msg ''id'' = Inr Undefined"
  shows "snd (onLine rt line (s, out)) = out"
proof -
  obtain response s' where "MCPServer_handleRequest rt msg s = (Inr response, s')"
    using assms(2) MCPServer_handleRequest_returns by blast
  with assms show ?thesis
    by (simp add: onLine_def Let_def)
qed

text \<open>
  The dispatcher of the HTTP server returns \<open>null\<close> for a notification while the logger
  works: when the call starts and, if there is a handler, when the handler is done.
\<close>

lemma McpServer_notification_unanswered:
  assumes "isNotification request" and "logger_works (state srv)"
    and "\<And>handler. methodHandlers srv (req_method request) = Some handler \<Longrightarrow>
           logger_works (snd (handler (req_params request) (state srv)))"
  shows "fst (McpServer_handleRequest rt request srv) = Inr None"
proof (cases "methodHandlers srv (req_method request)")
  case None
  with assms(1,2) show ?thesis
    by (simp add: McpServer_handleRequest_def McpServer_try_def logger_log_works)
next
  case (Some handler)
  obtain r st where h: "handler (req_params request) (state srv) = (r, st)"
    by (cases "handler (req_params request) (state srv)")
  with assms(3) [OF Some] have "logger_works st" by simp
  with Some h assms(1,2) show ?thesis
    by (cases r)
       (simp_all add: McpServer_handleRequest_def McpServer_try_def logger_log_works)
qed

lemma handleSetLevel_corrupt:
  assumes "logger_works st"
  shows "handleSetLevel rt (JObj [(''level'', corrupt_level)]) st =
           (Inl (JsError ''Cannot convert object to primitive value''),
            st\<lparr>currentLevel := corrupt_level\<rparr>)"
  using assms
  by (simp add: handleSetLevel_def logger_log_works get_prop_def js_ToString_def
        corrupt_level_def type_error_primitive_def)

lemma corrupt_level_breaks_logger:
  "\<not> logger_works (st\<lparr>currentLevel := corrupt_level\<rparr>)"
  by (simp add: logger_works_def corrupt_level_def)

text \<open>
  Claim C2 fails on the HTTP server. \<open>logging/setLevel\<close> stores the level it is given
  unchecked. Sent as a notification with a level that has no string, the handler throws
  after it has stored the level, the logging call in the \<open>catch\<close> of \<open>handleRequest\<close>
  throws on the stored level, and \<open>handleRequest\<close> rejects instead of returning
  \<open>null\<close>; the loop of \<open>handleMcpRequest\<close> answers the rejection with an
  InvalidRequest envelope, status 200.
\<close>

theorem notification_that_sets_level_is_answered:
  "isValidJsonRpcRequest set_level_notification \<and>
   isNotification (as_request set_level_notification) \<and>
   fst (McpServer_handleRequest rt (as_request set_level_notification) (new_McpServer rt)) =
     Inl (JsError ''Cannot convert object to primitive value'') \<and>
   fst (handleMcpRequest rt set_level_notification (new_McpServer rt)) =
     \<lparr>status = 200,
      body = JsonResponse
        \<lparr>jsonrpc = ''2.0'', resp_id = JNull, result = None,
         error = Some (JObj [(''code'', js_int (- 32600)),
                             (''message'', JStr ''Invalid Request''),
                             (''data'', JStr ''Cannot convert object to primitive value'')])\<rparr>\<rparr>"
proof -
  let ?srv = "new_McpServer rt"
  let ?req = "as_request set_level_notification"
  have v: "isValidJsonRpcRequest set_level_notification"
    by (simp add: isValidJsonRpcRequest_def set_level_notification_def)
  have n: "isNotification ?req"
    by (simp add: isNotification_def as_request_def set_level_notification_def)
  have r: "req_method ?req = ''logging/setLevel''"
    "req_params ?req = JObj [(''level'', corrupt_level)]"
    by (simp_all add: as_request_def set_level_notification_def)
  have h: "handleSetLevel rt (JObj [(''level'', corrupt_level)]) (state ?srv) =
             (Inl (JsError ''Cannot convert object to primitive value''),
              (state ?srv)\<lparr>currentLevel := corrupt_level\<rparr>)"
    using new_McpServer_logger_works by (rule handleSetLevel_corrupt)
  have t: "McpServer_try rt ?req ?srv =
             (Inl (JsError ''Cannot convert object to primitive value''),
              ?srv\<lparr>state := (state ?srv)\<lparr>currentLevel := corrupt_level\<rparr>\<rparr>)"
    by (simp add: McpServer_try_def r new_McpServer_handlers h)
  have d: "McpServer_handleRequest rt ?req ?srv =
             (Inl (JsError ''Cannot convert object to primitive value''),
              ?srv\<lparr>state := (state ?srv)\<lparr>currentLevel := corrupt_level\<rparr>\<rparr>)"
    using corrupt_level_breaks_logger [of "state ?srv"]
    by (simp add: McpServer_handleRequest_def t logger_log_works new_McpServer_logger_works
          logger_log_fails)
  have k: "\<not> has_key ''code'' set_level_notification"
    "field set_level_notification ''id'' = Undefined"
    by (simp_all add: set_level_notification_def)
  have p: "processRequests rt [set_level_notification] ?srv [] =
             ([\<lparr>jsonrpc = ''2.0'', resp_id = JNull, result = None,
                error = Some (JObj [(''code'', js_int (- 32600)),
                             (''message'', JStr ''Invalid Request''),
                             (''data'', JStr ''Cannot convert object to primitive value'')])\<rparr>],
              ?srv\<lparr>state := (state ?srv)\<lparr>currentLevel := corrupt_level\<rparr>\<rparr>)"
    using v k
    by (simp add: validateJsonRpcRequest_def d formatErrorResponse_def
          createJsonRpcResponse_def createInvalidRequestError_def createJsonRpcError_def
          InvalidRequest_def js_or_def)
  have b: "(case set_level_notification of JArr xs \<Rightarrow> True | _ \<Rightarrow> False) = False"
    "(case set_level_notification of JArr xs \<Rightarrow> xs | _ \<Rightarrow> [set_level_notification]) =
       [set_level_notification]"
    by (simp_all add: set_level_notification_def)
  have m: "fst (handleMcpRequest rt set_level_notification ?srv) =
     \<lparr>status = 200,
      body = JsonResponse
        \<lparr>jsonrpc = ''2.0'', resp_id = JNull, result = None,
         error = Some (JObj [(''code'', js_int (- 32600)),
                             (''message'', JStr ''Invalid Request''),
                             (''data'', JStr ''Cannot convert object to primitive value'')])\<rparr>\<rparr>"
    by (simp add: handleMcpRequest_def b p del: processRequests.simps)
  show ?thesis using v n d m by simp
qed

section \<open>Unknown methods\<close>

text \<open>
  The dispatcher of the HTTP server answers a request for a method without handler with
  MethodNotFound, while the logger works.
\<close>

lemma McpServer_unknown_method:
  assumes "methodHandlers srv (req_method request) = None" and "\<not> isNotification request"
    and "logger_works (state srv)"
  shows "McpServer_handleRequest rt request srv =
           (Inr (Some \<lparr>jsonrpc = ''2.0'', resp_id = req_id request, result = None,
                  error = Some (JObj [(''code'', js_int (- 32601)),
                                      (''message'', JStr ''Method not found''),
                                      (''data'', JObj [(''method'', JStr (req_method request))])])\<rparr>),
            srv)"
  using assms
  by (simp add: McpServer_handleRequest_def McpServer_try_def logger_log_works
        createJsonRpcResponse_def createMethodNotFoundError_def createJsonRpcError_def
        MethodNotFound_def)

text \<open>
  The stdio server answers a request for a method outside its eight cases, whatever its
  \<open>id\<close>, with InternalError.
\<close>

lemma MCPServer_unknown_method:
  assumes "get_prop request ''method'' = Inr m"
    and "m \<notin> set [JStr ''initialize'', JStr ''notifications/initialized'', JStr ''prompts/list'',
                     JStr ''prompts/get'', JStr ''resources/list'', JStr ''resources/read'',
                     JStr ''tools/list'', JStr ''tools/call'']"
  shows "\<exists>message. MCPServer_handleRequest rt request s =
           (Inr \<lparr>jsonrpc = ''2.0'', resp_id = field request ''id'', result = None,
                 error = Some (JObj [(''code'', js_int (- 32603)),
                                     (''message'', JStr message),
                                     (''data'', Undefined)])\<rparr>, s)"
proof -
  from assms(1) have "get_prop request ''id'' = Inr (field request ''id'')"
    by (simp add: get_prop_def split: if_splits)
  with assms show ?thesis
    by (cases "to_string_fails m")
       (simp_all add: MCPServer_handleRequest_def MCPServer_try_def createError_def
          js_ToString_def type_error_primitive_def)
qed

text \<open>
  Claim C1 fails on the stdio server. Its dispatcher throws the object
  \<open>{code: -32601, ...}\<close> for an unknown method, but the \<open>catch\<close> block forwards a
  thrown value only if it is an \<open>Error\<close> instance, which this plain object is not: the
  response carries InternalError, for every runtime and every server state.
\<close>

theorem stdio_unknown_method_internal_error:
  "MCPServer_handleRequest rt
     (JObj [(''jsonrpc'', JStr ''2.0''), (''id'', js_int 4),
            (''method'', JStr ''unknown/method'')]) s =
   (Inr \<lparr>jsonrpc = ''2.0'', resp_id = js_int 4, result = None,
         error = Some (JObj [(''code'', js_int (- 32603)),
                             (''message'', JStr ''Internal error''),
                             (''data'', Undefined)])\<rparr>, s)"
  by (simp add: MCPServer_handleRequest_def MCPServer_try_def get_prop_def createError_def
        js_ToString_def)

section \<open>Repeated initialize\<close>

lemma handleInitialize_works:
  assumes "logger_works st"
  shows "handleInitialize rt params st =
           (Inr (JObj [(''protocolVersion'', JStr ''2024-11-05''),
                       (''capabilities'', capabilities st),
                       (''serverInfo'', serverInfo st)]),
            st\<lparr>initialized := True\<rparr>)"
  using assms by (simp add: handleInitialize_def logger_log_works)

lemma McpServer_initialize:
  assumes "methodHandlers srv ''initialize'' = Some (handleInitialize rt)"
    and "req_method request = ''initialize''" and "\<not> isNotification request"
    and "logger_works (state srv)"
  shows "McpServer_handleRequest rt request srv =
           (Inr (Some \<lparr>jsonrpc = ''2.0'', resp_id = req_id request,
                  result = Some (JObj [(''protocolVersion'', JStr ''2024-11-05''),
                                       (''capabilities'', capabilities (state srv)),
                                       (''serverInfo'', serverInfo (state srv))]),
                  error = None\<rparr>),
            srv\<lparr>state := (state srv)\<lparr>initialized := True\<rparr>\<rparr>)"
proof -
  have "logger_works ((state srv)\<lparr>initialized := True\<rparr>)"
    using assms(4) by (simp add: logger_works_def)
  with assms show ?thesis
    using McpServer_returns_result
      [of srv request "handleInitialize rt" _ "(state srv)\<lparr>initialized := True\<rparr>" rt]
    by (simp add: handleInitialize_works createJsonRpcResponse_def)
qed

lemma McpServer_initialize_state:
  assumes "methodHandlers srv ''initialize'' = Some (handleInitialize rt)"
    and "req_method request = ''initialize''" and "logger_works (state srv)"
  shows "snd (McpServer_handleRequest rt request srv) =
           srv\<lparr>state := (state srv)\<lparr>initialized := True\<rparr>\<rparr>"
proof -
  have "logger_works ((state srv)\<lparr>initialized := True\<rparr>)"
    using assms(3) by (simp add: logger_works_def)
  with assms show ?thesis
    by (simp add: McpServer_handleRequest_def McpServer_try_def handleInitialize_works
          logger_log_works)
qed

lemma MCPServer_initialize_success:
  assumes "get_prop m ''method'' = Inr (JStr ''initialize'')"
    and "MCPServer_handleRequest rt m s = (Inr r, s')" and "result r \<noteq> None"
  shows "srv_initialized s'"
  using assms
  by (auto simp add: MCPServer_handleRequest_def MCPServer_try_def respond_def initialize_def
        split: if_splits sum.splits prod.splits)

lemma MCPServer_initialize_again:
  assumes "srv_initialized s" and "get_prop m ''method'' = Inr (JStr ''initialize'')"
  shows "\<exists>r. MCPServer_handleRequest rt m s = (Inr r, s) \<and> result r = None \<and> error r \<noteq> None"
proof -
  from assms(2) have "get_prop m ''id'' = Inr (field m ''id'')"
    by (simp add: get_prop_def split: if_splits)
  with assms show ?thesis
    by (simp add: MCPServer_handleRequest_def MCPServer_try_def respond_def initialize_def)
qed

text \<open>
  Claim C3, as amended. On the HTTP server, while the logger works, a second
  \<open>initialize\<close> request succeeds again: it returns the same result and leaves the state
  as the first call left it, initialized. On the stdio server a second \<open>initialize\<close>
  after a successful one is answered with an error response without result, and the state
  stays as it was.
\<close>

theorem repeated_initialize:
  "(methodHandlers srv ''initialize'' = Some (handleInitialize rt) \<and>
    logger_works (state srv) \<and>
    req_method r1 = ''initialize'' \<and> req_method r2 = ''initialize'' \<and>
    \<not> isNotification r2 \<and> McpServer_handleRequest rt r1 srv = (a1, srv1) \<longrightarrow>
      McpServer_handleRequest rt r2 srv1 =
        (Inr (Some \<lparr>jsonrpc = ''2.0'', resp_id = req_id r2,
               result = Some (JObj [(''protocolVersion'', JStr ''2024-11-05''),
                                    (''capabilities'', capabilities (state srv)),
                                    (''serverInfo'', serverInfo (state srv))]),
               error = None\<rparr>), srv1) \<and>
      initialized (state srv1)) \<and>
   (get_prop m1 ''method'' = Inr (JStr ''initialize'') \<and>
    get_prop m2 ''method'' = Inr (JStr ''initialize'') \<and>
    MCPServer_handleRequest rt m1 s = (Inr b1, s1) \<and> result b1 \<noteq> None \<longrightarrow>
      (\<exists>b2. MCPServer_handleRequest rt m2 s1 = (Inr b2, s1) \<and>
            result b2 = None \<and> error b2 \<noteq> None))"
proof (intro conjI impI)
  assume a: "methodHandlers srv ''initialize'' = Some (handleInitialize rt) \<and>
    logger_works (state srv) \<and>
    req_method r1 = ''initialize'' \<and> req_method r2 = ''initialize'' \<and>
    \<not> isNotification r2 \<and> McpServer_handleRequest rt r1 srv = (a1, srv1)"
  then have s1: "srv1 = srv\<lparr>state := (state srv)\<lparr>initialized := True\<rparr>\<rparr>"
    using McpServer_initialize_state [of srv rt r1] by simp
  then have h: "methodHandlers srv1 ''initialize'' = Some (handleInitialize rt)"
    and l: "logger_works (state srv1)"
    using a by (simp_all add: logger_works_def)
  show "McpServer_handleRequest rt r2 srv1 =
        (Inr (Some \<lparr>jsonrpc = ''2.0'', resp_id = req_id r2,
               result = Some (JObj [(''protocolVersion'', JStr ''2024-11-05''),
                                    (''capabilities'', capabilities (state srv)),
                                    (''serverInfo'', serverInfo (state srv))]),
               error = None\<rparr>), srv1)"
    using McpServer_initialize [OF h, of r2] a l by (simp add: s1)
  show "initialized (state srv1)" by (simp add: s1)
next
  assume b: "get_prop m1 ''method'' = Inr (JStr ''initialize'') \<and>
    get_prop m2 ''method'' = Inr (JStr ''initialize'') \<and>
    MCPServer_handleRequest rt m1 s = (Inr b1, s1) \<and> result b1 \<noteq> None"
  then have "srv_initialized s1"
    using MCPServer_initialize_success by blast
  with b show "\<exists>b2. MCPServer_handleRequest rt m2 s1 = (Inr b2, s1) \<and>
            result b2 = None \<and> error b2 \<noteq> None"
    using MCPServer_initialize_again by blast
qed

text \<open>
  The claim as stated fails on the stdio server: the first call returns a result, the second
  an error.
\<close>

theorem repeated_initialize_counterexample:
  "fst (MCPServer_handleRequest sample_runtime initialize_msg new_MCPServer) =
     Inr \<lparr>jsonrpc = ''2.0'', resp_id = js_int 1,
          result = Some (JObj [(''protocolVersion'', JStr ''2024-11-05''),
                               (''capabilities'', srv_capabilities new_MCPServer),
                               (''serverInfo'', srv_serverInfo new_MCPServer)]),
          error = None\<rparr> \<and>
   fst (MCPServer_handleRequest sample_runtime initialize_msg
          (snd (MCPServer_handleRequest sample_runtime initialize_msg new_MCPServer))) =
     Inr \<lparr>jsonrpc = ''2.0'', resp_id = js_int 1, result = None,
          error = Some (JObj [(''code'', js_int (- 32603)),
                              (''message'', JStr ''Internal error''),
                              (''data'', Undefined)])\<rparr>"
  by (simp add: MCPServer_handleRequest_def MCPServer_try_def respond_def initialize_def
        initialize_msg_def initialize_params_def get_prop_def createError_def new_MCPServer_def)

theorem repeated_initialize_witness:
  "logger_works (state (new_McpServer sample_runtime)) \<and>
   McpServer_handleRequest sample_runtime initialize_request
     (snd (McpServer_handleRequest sample_runtime initialize_request
             (new_McpServer sample_runtime))) =
     (Inr (Some \<lparr>jsonrpc = ''2.0'', resp_id = js_int 1,
            result = Some (JObj [(''protocolVersion'', JStr ''2024-11-05''),
                                 (''capabilities'', capabilities (state (new_McpServer sample_runtime))),
                                 (''serverInfo'', serverInfo (state (new_McpServer sample_runtime)))]),
            error = None\<rparr>),
      snd (McpServer_handleRequest sample_runtime initialize_request
             (new_McpServer sample_runtime))) \<and>
   (\<exists>b2. MCPServer_handleRequest sample_runtime initialize_msg
            (snd (MCPServer_handleRequest sample_runtime initialize_msg new_MCPServer)) =
          (Inr b2, snd (MCPServer_handleRequest sample_runtime initialize_msg new_MCPServer)) \<and>
          result b2 = None \<and> error b2 \<noteq> None)"
proof -
  let ?b1 = "\<lparr>jsonrpc = ''2.0'', resp_id = js_int 1,
              result = Some (JObj [(''protocolVersion'', JStr ''2024-11-05''),
                               (''capabilities'', srv_capabilities new_MCPServer),
                               (''serverInfo'', srv_serverInfo new_MCPServer)]),
              error = None\<rparr>"
  have m: "get_prop initialize_msg ''method'' = Inr (JStr ''initialize'')"
    by (simp add: get_prop_def initialize_msg_def)
  have f: "MCPServer_handleRequest sample_runtime initialize_msg new_MCPServer =
             (Inr ?b1, snd (MCPServer_handleRequest sample_runtime initialize_msg new_MCPServer))"
    by (simp add: MCPServer_handleRequest_def MCPServer_try_def respond_def initialize_def
        initialize_msg_def initialize_params_def get_prop_def new_MCPServer_def)
  have n: "\<not> isNotification initialize_request"
    by (simp add: isNotification_def initialize_request_def js_int_def)
  have r: "req_method initialize_request = ''initialize''"
    "req_id initialize_request = js_int 1"
    by (simp_all add: initialize_request_def)
  have p: "McpServer_handleRequest sample_runtime initialize_request
             (new_McpServer sample_runtime) =
             (fst (McpServer_handleRequest sample_runtime initialize_request
                     (new_McpServer sample_runtime)),
              snd (McpServer_handleRequest sample_runtime initialize_request
                     (new_McpServer sample_runtime)))"
    by simp
  show ?thesis
    using repeated_initialize
      [of "new_McpServer sample_runtime" sample_runtime initialize_request initialize_request
          "fst (McpServer_handleRequest sample_runtime initialize_request
                  (new_McpServer sample_runtime))"
          "snd (McpServer_handleRequest sample_runtime initialize_request
                  (new_McpServer sample_runtime))"
          initialize_msg initialize_msg new_MCPServer ?b1
          "snd (MCPServer_handleRequest sample_runtime initialize_msg new_MCPServer)"]
      m f n r p new_McpServer_handlers(1) [of sample_runtime]
      new_McpServer_logger_works [of sample_runtime]
    by simp
qed

section \<open>Protocol version negotiation\<close>

lemma initialize_unsupported:
  assumes "\<not> srv_initialized s" and "get_prop params ''protocolVersion'' = Inr v"
    and "v \<noteq> JStr ''2024-11-05''" and "\<not> to_string_fails v"
  shows "initialize rt params s =
           (Inl (Thrown (JObj [(''code'', js_int (- 32602)),
                               (''message'', JStr (''Unsupported protocol version: ''
                                                   @ to_str rt v)),
                               (''data'', Undefined)])), s)"
  using assms by (simp add: initialize_def createError_def js_ToString_def)

lemma MCPServer_initialize_unsupported:
  assumes "\<not> srv_initialized s" and "get_prop params ''protocolVersion'' = Inr v"
    and "v \<noteq> JStr ''2024-11-05''" and "\<not> to_string_fails v"
    and "get_prop msg ''method'' = Inr (JStr ''initialize'')" and "field msg ''params'' = params"
  shows "\<exists>r. MCPServer_handleRequest rt msg s = (Inr r, s) \<and> result r = None \<and> error r \<noteq> None"
proof -
  from assms(5) have "get_prop msg ''id'' = Inr (field msg ''id'')"
    by (simp add: get_prop_def split: if_splits)
  with assms show ?thesis
    by (simp add: MCPServer_handleRequest_def MCPServer_try_def respond_def
          initialize_unsupported)
qed

lemma MCPServer_initialize_supported:
  assumes "\<not> srv_initialized s"
    and "get_prop params ''protocolVersion'' = Inr (JStr ''2024-11-05'')"
    and "get_prop msg ''method'' = Inr (JStr ''initialize'')" and "field msg ''params'' = params"
  shows "MCPServer_handleRequest rt msg s =
           (Inr \<lparr>jsonrpc = ''2.0'', resp_id = field msg ''id'',
                 result = Some (JObj [(''protocolVersion'', JStr ''2024-11-05''),
                                      (''capabilities'', srv_capabilities s),
                                      (''serverInfo'', srv_serverInfo s)]),
                 error = None\<rparr>,
            s\<lparr>srv_initialized := True\<rparr>)"
  using assms
  by (simp add: MCPServer_handleRequest_def MCPServer_try_def respond_def initialize_def)

text \<open>
  Claim C4, as amended. The HTTP server checks no protocol version: while the logger works,
  \<open>initialize\<close> returns its result for every parameter value. On the stdio server that
  is not yet initialized, \<open>initialize\<close> throws an object with code -32602 for every
  \<open>protocolVersion\<close> that has a string and is not 2024-11-05, and the request is answered
  with an error response without result, the server staying uninitialized; for 2024-11-05
  the request is answered with \<open>{protocolVersion, capabilities, serverInfo}\<close> and the
  server becomes initialized.
\<close>

theorem initialize_protocol_version:
  "(methodHandlers srv ''initialize'' = Some (handleInitialize rt) \<and>
    logger_works (state srv) \<and>
    req_method request = ''initialize'' \<and> \<not> isNotification request \<longrightarrow>
      fst (McpServer_handleRequest rt request srv) =
        Inr (Some \<lparr>jsonrpc = ''2.0'', resp_id = req_id request,
              result = Some (JObj [(''protocolVersion'', JStr ''2024-11-05''),
                                   (''capabilities'', capabilities (state srv)),
                                   (''serverInfo'', serverInfo (state srv))]),
              error = None\<rparr>)) \<and>
   (\<not> srv_initialized s \<and> get_prop params ''protocolVersion'' = Inr v \<and>
    v \<noteq> JStr ''2024-11-05'' \<and> \<not> to_string_fails v \<longrightarrow>
      initialize rt params s =
        (Inl (Thrown (JObj [(''code'', js_int (- 32602)),
                            (''message'', JStr (''Unsupported protocol version: ''
                                                @ to_str rt v)),
                            (''data'', Undefined)])), s) \<and>
      (get_prop msg ''method'' = Inr (JStr ''initialize'') \<and> field msg ''params'' = params \<longrightarrow>
         (\<exists>r. MCPServer_handleRequest rt msg s = (Inr r, s) \<and>
              result r = None \<and> error r \<noteq> None))) \<and>
   (\<not> srv_initialized s \<and> get_prop params ''protocolVersion'' = Inr (JStr ''2024-11-05'') \<and>
    get_prop msg ''method'' = Inr (JStr ''initialize'') \<and> field msg ''params'' = params \<longrightarrow>
      MCPServer_handleRequest rt msg s =
        (Inr \<lparr>jsonrpc = ''2.0'', resp_id = field msg ''id'',
              result = Some (JObj [(''protocolVersion'', JStr ''2024-11-05''),
                                   (''capabilities'', srv_capabilities s),
                                   (''serverInfo'', srv_serverInfo s)]),
              error = None\<rparr>,
         s\<lparr>srv_initialized := True\<rparr>))"
  using McpServer_initialize [of srv rt request] initialize_unsupported [of s params v rt]
    MCPServer_initialize_unsupported [of s params v msg rt]
    MCPServer_initialize_supported [of s params msg rt]
  by simp

text \<open>
  The claim as stated fails on the HTTP server: a version the server does not know is
  accepted.
\<close>

theorem initialize_protocol_version_counterexample:
  "fst (McpServer_handleRequest sample_runtime
          \<lparr>req_id = js_int 1, req_method = ''initialize'',
           req_params = JObj [(''protocolVersion'', JStr ''1999-01-01'')]\<rparr>
          (new_McpServer sample_runtime)) =
     Inr (Some \<lparr>jsonrpc = ''2.0'', resp_id = js_int 1,
           result = Some (JObj [(''protocolVersion'', JStr ''2024-11-05''),
                                (''capabilities'', capabilities (state (new_McpServer sample_runtime))),
                                (''serverInfo'', serverInfo (state (new_McpServer sample_runtime)))]),
           error = None\<rparr>)"
  using McpServer_initialize
    [of "new_McpServer sample_runtime" sample_runtime
        "\<lparr>req_id = js_int 1, req_method = ''initialize'',
          req_params = JObj [(''protocolVersion'', JStr ''1999-01-01'')]\<rparr>"]
  by (simp add: new_McpServer_handlers new_McpServer_logger_works isNotification_def js_int_def)

theorem initialize_protocol_version_witness:
  "logger_works (state (new_McpServer sample_runtime)) \<and>
   fst (McpServer_handleRequest sample_runtime initialize_request
          (new_McpServer sample_runtime)) =
     Inr (Some \<lparr>jsonrpc = ''2.0'', resp_id = js_int 1,
           result = Some (JObj [(''protocolVersion'', JStr ''2024-11-05''),
                                (''capabilities'', capabilities (state (new_McpServer sample_runtime))),
                                (''serverInfo'', serverInfo (state (new_McpServer sample_runtime)))]),
           error = None\<rparr>) \<and>
   \<not> to_string_fails (JStr ''1999-01-01'') \<and>
   initialize sample_runtime old_version_params new_MCPServer =
     (Inl (Thrown (JObj [(''code'', js_int (- 32602)),
                         (''message'', JStr ''Unsupported protocol version: 1999-01-01''),
                         (''data'', Undefined)])), new_MCPServer) \<and>
   (\<exists>r. MCPServer_handleRequest sample_runtime old_version_msg new_MCPServer =
          (Inr r, new_MCPServer) \<and> result r = None \<and> error r \<noteq> None) \<and>
   MCPServer_handleRequest sample_runtime initialize_msg new_MCPServer =
     (Inr \<lparr>jsonrpc = ''2.0'', resp_id = js_int 1,
           result = Some (JObj [(''protocolVersion'', JStr ''2024-11-05''),
                                (''capabilities'', srv_capabilities new_MCPServer),
                                (''serverInfo'', srv_serverInfo new_MCPServer)]),
           error = None\<rparr>,
      new_MCPServer\<lparr>srv_initialized := True\<rparr>)"
proof -
  have n: "\<not> isNotification initialize_request"
    by (simp add: isNotification_def initialize_request_def js_int_def)
  have r: "req_method initialize_request = ''initialize''" "req_id initialize_request = js_int 1"
    by (simp_all add: initialize_request_def)
  have u: "\<not> srv_initialized new_MCPServer" by (simp add: new_MCPServer_def)
  have v: "get_prop old_version_params ''protocolVersion'' = Inr (JStr ''1999-01-01'')"
    "JStr ''1999-01-01'' \<noteq> JStr ''2024-11-05''" "\<not> to_string_fails (JStr ''1999-01-01'')"
    by (simp_all add: get_prop_def old_version_params_def)
  have m: "get_prop old_version_msg ''method'' = Inr (JStr ''initialize'')"
    "field old_version_msg ''params'' = old_version_params"
    by (simp_all add: get_prop_def old_version_msg_def)
  have v': "get_prop initialize_params ''protocolVersion'' = Inr (JStr ''2024-11-05'')"
    by (simp add: get_prop_def initialize_params_def)
  have m': "get_prop initialize_msg ''method'' = Inr (JStr ''initialize'')"
    "field initialize_msg ''params'' = initialize_params" "field initialize_msg ''id'' = js_int 1"
    by (simp_all add: get_prop_def initialize_msg_def)
  show ?thesis
    using initialize_protocol_version
        [of "new_McpServer sample_runtime" sample_runtime initialize_request new_MCPServer
            old_version_params "JStr ''1999-01-01''" old_version_msg]
      initialize_protocol_version
        [of "new_McpServer sample_runtime" sample_runtime initialize_request new_MCPServer
            initialize_params "JStr ''2024-11-05''" initialize_msg]
      n r u v m v' m' new_McpServer_handlers(1) [of sample_runtime]
      new_McpServer_logger_works [of sample_runtime]
    by simp
qed

section \<open>Reading a resource that does not exist\<close>

lemma readResource_not_found:
  assumes "get_prop params ''uri'' = Inr u" and "Map_get (resources s) u = None"
    and "\<not> to_string_fails u"
  shows "readResource rt params s =
           Inl (Thrown (JObj [(''code'', js_int (- 32602)),
                              (''message'', JStr (''Resource not found: '' @ to_str rt u)),
                              (''data'', Undefined)]))"
  using assms by (simp add: readResource_def createError_def js_ToString_def)

lemma MCPServer_read_not_found:
  assumes "get_prop params ''uri'' = Inr u" and "Map_get (resources s) u = None"
    and "\<not> to_string_fails u"
    and "get_prop msg ''method'' = Inr (JStr ''resources/read'')"
    and "field msg ''params'' = params"
  shows "\<exists>r. MCPServer_handleRequest rt msg s = (Inr r, s) \<and> result r = None \<and> error r \<noteq> None"
proof -
  from assms(4) have "get_prop msg ''id'' = Inr (field msg ''id'')"
    by (simp add: get_prop_def split: if_splits)
  with assms show ?thesis
    by (simp add: MCPServer_handleRequest_def MCPServer_try_def respond_def
          readResource_not_found)
qed

lemma handleReadResource_not_found:
  assumes "logger_works st" and "get_prop params ''uri'' = Inr u"
    and "u \<noteq> JStr ''file:///example.txt''" and "u \<noteq> JStr ''http://example.com/api/data''"
    and "\<not> to_string_fails u"
  shows "handleReadResource rt params st =
           (Inl (JsError (''Resource not found: '' @ to_str rt u)), st)"
  using assms
  by (auto simp add: handleReadResource_def logger_log_works get_prop_def js_ToString_def
        Let_def split: if_splits)

lemma McpServer_read_not_found:
  assumes "methodHandlers srv ''resources/read'' = Some (handleReadResource rt)"
    and "logger_works (state srv)"
    and "req_method request = ''resources/read''" and "\<not> isNotification request"
    and "get_prop (req_params request) ''uri'' = Inr u"
    and "u \<noteq> JStr ''file:///example.txt''" and "u \<noteq> JStr ''http://example.com/api/data''"
    and "\<not> to_string_fails u"
  shows "McpServer_handleRequest rt request srv =
           (Inr (Some \<lparr>jsonrpc = ''2.0'', resp_id = req_id request, result = None,
                  error = Some (JObj [(''code'', js_int (- 32603)),
                                      (''message'', JStr ''Internal error''),
                                      (''data'', JStr (''Resource not found: ''
                                                       @ to_str rt u))])\<rparr>), srv)"
proof -
  have h: "handleReadResource rt (req_params request) (state srv) =
             (Inl (JsError (''Resource not found: '' @ to_str rt u)), state srv)"
    using assms by (intro handleReadResource_not_found) simp_all
  show ?thesis
    using McpServer_returns_fault
      [of srv request "handleReadResource rt"
          "JsError (''Resource not found: '' @ to_str rt u)" "state srv" rt] assms h
    by (simp add: createJsonRpcResponse_def createInternalError_def createJsonRpcError_def
          InternalError_def)
qed

text \<open>
  Claim C5, as amended. On the HTTP server, while the logger works, \<open>resources/read\<close>
  with a \<open>uri\<close> that has a string and is neither of the two known ones is answered with
  an error response whose code is -32603 (InternalError) and whose data is the message
  \<open>Resource not found: ...\<close>. On the stdio server, \<open>readResource\<close> throws an object
  with code -32602 for a \<open>uri\<close> that has a string and is not registered, and the request
  is answered with an error response without result.
\<close>

theorem read_unknown_resource:
  "(methodHandlers srv ''resources/read'' = Some (handleReadResource rt) \<and>
    logger_works (state srv) \<and>
    req_method request = ''resources/read'' \<and> \<not> isNotification request \<and>
    get_prop (req_params request) ''uri'' = Inr u \<and>
    u \<noteq> JStr ''file:///example.txt'' \<and> u \<noteq> JStr ''http://example.com/api/data'' \<and>
    \<not> to_string_fails u \<longrightarrow>
      McpServer_handleRequest rt request srv =
        (Inr (Some \<lparr>jsonrpc = ''2.0'', resp_id = req_id request, result = None,
               error = Some (JObj [(''code'', js_int (- 32603)),
                                   (''message'', JStr ''Internal error''),
                                   (''data'', JStr (''Resource not found: ''
                                                    @ to_str rt u))])\<rparr>), srv)) \<and>
   (get_prop params ''uri'' = Inr v \<and> Map_get (resources s) v = None \<and>
    \<not> to_string_fails v \<longrightarrow>
      readResource rt params s =
        Inl (Thrown (JObj [(''code'', js_int (- 32602)),
                           (''message'', JStr (''Resource not found: '' @ to_str rt v)),
                           (''data'', Undefined)])) \<and>
      (get_prop msg ''method'' = Inr (JStr ''resources/read'') \<and>
       field msg ''params'' = params \<longrightarrow>
         (\<exists>r. MCPServer_handleRequest rt msg s = (Inr r, s) \<and>
              result r = None \<and> error r \<noteq> None)))"
  using McpServer_read_not_found [of srv rt request u]
    readResource_not_found [of params v s rt] MCPServer_read_not_found [of params v s msg rt]
  by simp

text \<open>
  The claim as stated fails on the HTTP server: the code of the error is -32603, not -32602.
\<close>

theorem read_unknown_resource_counterexample:
  "fst (McpServer_handleRequest sample_runtime missing_resource_request
          (new_McpServer sample_runtime)) =
     Inr (Some \<lparr>jsonrpc = ''2.0'', resp_id = js_int 5, result = None,
           error = Some (JObj [(''code'', js_int (- 32603)),
                               (''message'', JStr ''Internal error''),
                               (''data'', JStr ''Resource not found: file:///missing.txt'')])\<rparr>)"
  using McpServer_read_not_found
    [of "new_McpServer sample_runtime" sample_runtime missing_resource_request
        "JStr ''file:///missing.txt''"]
  by (simp add: new_McpServer_handlers new_McpServer_logger_works missing_resource_request_def
        missing_resource_params_def isNotification_def js_int_def get_prop_def)

lemma setupServer_resources:
  "Map_get (resources (setupServer new_MCPServer)) (JStr ''file:///missing.txt'') = None"
  by (simp add: setupServer_def registerResource_def registerTool_def registerPrompt_def
        emit_def new_MCPServer_def Map_get_def Map_set_def)

theorem read_unknown_resource_witness:
  "logger_works (state (new_McpServer sample_runtime)) \<and>
   \<not> to_string_fails (JStr ''file:///missing.txt'') \<and>
   McpServer_handleRequest sample_runtime missing_resource_request
     (new_McpServer sample_runtime) =
     (Inr (Some \<lparr>jsonrpc = ''2.0'', resp_id = js_int 5, result = None,
            error = Some (JObj [(''code'', js_int (- 32603)),
                                (''message'', JStr ''Internal error''),
                                (''data'', JStr ''Resource not found: file:///missing.txt'')])\<rparr>),
      new_McpServer sample_runtime) \<and>
   readResource sample_runtime missing_resource_params (setupServer new_MCPServer) =
     Inl (Thrown (JObj [(''code'', js_int (- 32602)),
                        (''message'', JStr ''Resource not found: file:///missing.txt''),
                        (''data'', Undefined)])) \<and>
   (\<exists>r. MCPServer_handleRequest sample_runtime missing_resource_msg (setupServer new_MCPServer) =
          (Inr r, setupServer new_MCPServer) \<and> result r = None \<and> error r \<noteq> None)"
proof -
  have n: "\<not> isNotification missing_resource_request"
    "req_method missing_resource_request = ''resources/read''"
    "req_id missing_resource_request = js_int 5"
    "get_prop (req_params missing_resource_request) ''uri'' = Inr (JStr ''file:///missing.txt'')"
    by (simp_all add: isNotification_def missing_resource_request_def js_int_def get_prop_def
          missing_resource_params_def)
  have p: "get_prop missing_resource_params ''uri'' = Inr (JStr ''file:///missing.txt'')"
    by (simp add: get_prop_def missing_resource_params_def)
  have m: "get_prop missing_resource_msg ''method'' = Inr (JStr ''resources/read'')"
    "field missing_resource_msg ''params'' = missing_resource_params"
    by (simp_all add: get_prop_def missing_resource_msg_def)
  show ?thesis
    using read_unknown_resource
        [of "new_McpServer sample_runtime" sample_runtime missing_resource_request
            "JStr ''file:///missing.txt''" missing_resource_params "JStr ''file:///missing.txt''"
            "setupServer new_MCPServer" missing_resource_msg]
      n p m new_McpServer_handlers(2) [of sample_runtime] setupServer_resources
      new_McpServer_logger_works [of sample_runtime]
    by simp
qed

section \<open>A rejected expression\<close>

lemma evaluateExpression_throws_Error:
  assumes "evaluateExpression rt x = Inl e"
  shows "instanceof_Error e"
  using assms
  by (auto simp add: evaluateExpression_def Let_def split: jsval.splits if_splits sum.splits)

lemma evaluateExpression_invalid_chars:
  assumes "\<exists>c \<in> set x. \<not> allowed_char c"
  shows "evaluateExpression rt (JStr x) = Inl (JsError ''Invalid characters in expression'')"
proof -
  from assms have "filter allowed_char x \<noteq> x"
    by (simp add: filter_id_conv)
  then show ?thesis
    by (simp add: evaluateExpression_def Let_def)
qed

lemma handleCallTool_rejected:
  assumes "logger_works st" and "get_prop params ''name'' = Inr (JStr ''calculate'')"
    and "evaluateExpression rt
           (js_or (field (field params ''arguments'') ''expression'') (JStr [])) = Inl e"
  shows "handleCallTool rt params st =
           (Inr (JObj [(''content'', JArr [JObj [(''type'', JStr ''text''),
                                                 (''text'', JStr (''Error: '' @ error_message e))]]),
                       (''isError'', JBool True)]), st)"
  using assms evaluateExpression_throws_Error [OF assms(3)]
  by (simp add: handleCallTool_def logger_log_works get_prop_def Let_def split: if_splits)

text \<open>
  While the logger works, a \<open>tools/call\<close> request for \<open>calculate\<close> whose expression
  \<open>evaluateExpression\<close> rejects is answered with a result that has \<open>isError: true\<close>
  and one text block, and with no error.
\<close>

lemma rejected_expression_is_tool_error:
  assumes "methodHandlers srv ''tools/call'' = Some (handleCallTool rt)"
    and "logger_works (state srv)"
    and "req_method request = ''tools/call''" and "\<not> isNotification request"
    and "get_prop (req_params request) ''name'' = Inr (JStr ''calculate'')"
    and "evaluateExpression rt
      (js_or (field (field (req_params request) ''arguments'') ''expression'') (JStr [])) = Inl e"
  shows "McpServer_handleRequest rt request srv =
        (Inr (Some \<lparr>jsonrpc = ''2.0'', resp_id = req_id request,
               result = Some (JObj [
                 (''content'', JArr [JObj [(''type'', JStr ''text''),
                                           (''text'', JStr (''Error: '' @ error_message e))]]),
                 (''isError'', JBool True)]),
               error = None\<rparr>), srv)"
proof -
  have h: "handleCallTool rt (req_params request) (state srv) =
           (Inr (JObj [(''content'', JArr [JObj [(''type'', JStr ''text''),
                                                 (''text'', JStr (''Error: '' @ error_message e))]]),
                       (''isError'', JBool True)]), state srv)"
    using assms by (intro handleCallTool_rejected) simp_all
  show ?thesis
    using McpServer_returns_result [of srv request "handleCallTool rt" _ "state srv" rt] assms h
    by (simp add: createJsonRpcResponse_def)
qed

lemma McpServer_set_level_corrupt:
  assumes "methodHandlers srv ''logging/setLevel'' = Some (handleSetLevel rt)"
    and "logger_works (state srv)"
    and "req_method request = ''logging/setLevel''"
    and "req_params request = JObj [(''level'', corrupt_level)]"
  shows "McpServer_handleRequest rt request srv =
           (Inl (JsError ''Cannot convert object to primitive value''),
            srv\<lparr>state := (state srv)\<lparr>currentLevel := corrupt_level\<rparr>\<rparr>)"
  using assms corrupt_level_breaks_logger [of "state srv"]
  by (simp add: McpServer_handleRequest_def McpServer_try_def handleSetLevel_corrupt
        logger_log_works logger_log_fails)

text \<open>
  Claim C6 fails. The dispatcher logs through the global logger before its \<open>try\<close> and in
  its \<open>catch\<close>, and \<open>logging/setLevel\<close> stores the level it is given unchecked. Once a
  level without a string is stored, every call of \<open>handleRequest\<close> rejects, and the loop
  of \<open>handleMcpRequest\<close> answers the rejection with a protocol error, InvalidRequest: so
  it answers the \<open>tools/call\<close> whose expression the evaluator rejects, here second in a
  batch after the request that sets the level.
\<close>

theorem rejected_expression_gets_protocol_error:
  "evaluateExpression rt (JStr ''2 + abc'') = Inl (JsError ''Invalid characters in expression'') \<and>
   fst (handleMcpRequest rt (JArr [set_level_msg, bad_expression_msg]) (new_McpServer rt)) =
     \<lparr>status = 200,
      body = JsonResponses [
        \<lparr>jsonrpc = ''2.0'', resp_id = js_int 1, result = None,
         error = Some (JObj [(''code'', js_int (- 32600)),
                             (''message'', JStr ''Invalid Request''),
                             (''data'', JStr ''Cannot convert object to primitive value'')])\<rparr>,
        \<lparr>jsonrpc = ''2.0'', resp_id = js_int 3, result = None,
         error = Some (JObj [(''code'', js_int (- 32600)),
                             (''message'', JStr ''Invalid Request''),
                             (''data'', JStr ''Cannot convert object to primitive value'')])\<rparr>]\<rparr>"
proof -
  let ?srv = "new_McpServer rt"
  let ?srv' = "?srv\<lparr>state := (state ?srv)\<lparr>currentLevel := corrupt_level\<rparr>\<rparr>"
  have e: "evaluateExpression rt (JStr ''2 + abc'') =
             Inl (JsError ''Invalid characters in expression'')"
    by (rule evaluateExpression_invalid_chars) (simp add: allowed_char_def is_space_def)
  have v: "validateJsonRpcRequest set_level_msg = set_level_msg"
    "validateJsonRpcRequest bad_expression_msg = bad_expression_msg"
    by (simp_all add: validateJsonRpcRequest_def isValidJsonRpcRequest_def set_level_msg_def
          bad_expression_msg_def js_int_def)
  have k: "\<not> has_key ''code'' set_level_msg" "\<not> has_key ''code'' bad_expression_msg"
    "field set_level_msg ''id'' = js_int 1" "field bad_expression_msg ''id'' = js_int 3"
    by (simp_all add: set_level_msg_def bad_expression_msg_def)
  have r: "req_method (as_request set_level_msg) = ''logging/setLevel''"
    "req_params (as_request set_level_msg) = JObj [(''level'', corrupt_level)]"
    by (simp_all add: as_request_def set_level_msg_def)
  have d1: "McpServer_handleRequest rt (as_request set_level_msg) ?srv =
              (Inl (JsError ''Cannot convert object to primitive value''), ?srv')"
    using r by (intro McpServer_set_level_corrupt)
      (simp_all add: new_McpServer_handlers new_McpServer_logger_works)
  have d2: "McpServer_handleRequest rt (as_request bad_expression_msg) ?srv' =
              (Inl (JsError ''Cannot convert object to primitive value''), ?srv')"
    using corrupt_level_breaks_logger [of "state ?srv"]
    by (intro McpServer_rejects_without_logger) simp
  have p: "processRequests rt [set_level_msg, bad_expression_msg] ?srv [] =
     ([\<lparr>jsonrpc = ''2.0'', resp_id = js_int 1, result = None,
         error = Some (JObj [(''code'', js_int (- 32600)),
                             (''message'', JStr ''Invalid Request''),
                             (''data'', JStr ''Cannot convert object to primitive value'')])\<rparr>,
        \<lparr>jsonrpc = ''2.0'', resp_id = js_int 3, result = None,
         error = Some (JObj [(''code'', js_int (- 32600)),
                             (''message'', JStr ''Invalid Request''),
                             (''data'', JStr ''Cannot convert object to primitive value'')])\<rparr>],
      ?srv')"
    using k
    by (simp add: v d1 d2 formatErrorResponse_def createJsonRpcResponse_def
          createInvalidRequestError_def createJsonRpcError_def InvalidRequest_def js_or_def
          js_int_def)
  show ?thesis
    using e by (simp add: handleMcpRequest_def p del: processRequests.simps)
qed

text \<open>An instance, at the sample runtime.\<close>

theorem rejected_expression_gets_protocol_error_witness:
  "evaluateExpression sample_runtime (JStr ''2 + abc'') = Inl (JsError ''Invalid characters in expression'') \<and>
   fst (handleMcpRequest sample_runtime (JArr [set_level_msg, bad_expression_msg]) (new_McpServer sample_runtime)) =
     \<lparr>status = 200,
      body = JsonResponses [
        \<lparr>jsonrpc = ''2.0'', resp_id = js_int 1, result = None,
         error = Some (JObj [(''code'', js_int (- 32600)),
                             (''message'', JStr ''Invalid Request''),
                             (''data'', JStr ''Cannot convert object to primitive value'')])\<rparr>,
        \<lparr>jsonrpc = ''2.0'', resp_id = js_int 3, result = None,
         error = Some (JObj [(''code'', js_int (- 32600)),
                             (''message'', JStr ''Invalid Request''),
                             (''data'', JStr ''Cannot convert object to primitive value'')])\<rparr>]\<rparr>"
  using rejected_expression_gets_protocol_error [of sample_runtime] by simp

section \<open>A body that is not JSON\<close>

lemma post_mcp_unparsable:
  assumes "rt_bodyParser rt raw = Inl e"
  shows "post_mcp rt raw srv =
           (\<lparr>status = 500,
             body = JsonValue (JObj [
               (''error'', JStr ''Internal Server Error''),
               (''message'', if rt_NODE_ENV rt = JStr ''development'' then message_of e
                             else JStr ''An unexpected error occurred'')])\<rparr>, srv)"
  using assms by (simp add: post_mcp_def errorHandler_def)

lemma handleMcpRequest_status:
  "status (fst (handleMcpRequest rt b srv)) = 200 \<or>
   status (fst (handleMcpRequest rt b srv)) = 204"
  by (simp add: handleMcpRequest_def Let_def split: prod.splits list.splits)

lemma post_mcp_never_400: "status (fst (post_mcp rt raw srv)) \<noteq> 400"
proof (cases "rt_bodyParser rt raw")
  case (Inl e)
  then show ?thesis by (simp add: post_mcp_def errorHandler_def)
next
  case (Inr b)
  then show ?thesis
    using handleMcpRequest_status [of rt b srv] by (auto simp add: post_mcp_def)
qed

text \<open>
  Claim C7 fails. The body is parsed by the middleware before \<open>handleMcpRequest\<close> runs,
  so the \<open>catch\<close> of \<open>handleMcpRequest\<close> that would answer 400 with a ParseError
  envelope never sees a body that is not JSON: the parser's error goes to the global error
  handler, which answers 500 with a body that is no JSON-RPC envelope.
\<close>

theorem unparsable_body_gets_500:
  "rt_bodyParser sample_runtime ''{bad json'' = Inl (JsError ''Unexpected token in JSON'') \<and>
   post_mcp sample_runtime ''{bad json'' (new_McpServer sample_runtime) =
     (\<lparr>status = 500,
       body = JsonValue (JObj [(''error'', JStr ''Internal Server Error''),
                               (''message'', JStr ''An unexpected error occurred'')])\<rparr>,
      new_McpServer sample_runtime)"
proof -
  have p: "rt_bodyParser sample_runtime ''{bad json'' = Inl (JsError ''Unexpected token in JSON'')"
    by (simp add: sample_runtime_def sample_parse_def notification_line_def)
  have e: "rt_NODE_ENV sample_runtime \<noteq> JStr ''development''"
    by (simp add: sample_runtime_def)
  show ?thesis
    using post_mcp_unparsable [OF p, of "new_McpServer sample_runtime"] p e by simp
qed

section \<open>Batches\<close>

lemma validate_valid:
  "isValidJsonRpcRequest m \<Longrightarrow> validateJsonRpcRequest m = m"
  by (simp add: validateJsonRpcRequest_def)

text \<open>
  One call of \<open>handleRequest\<close> while the logger works and the handler called, if any,
  leaves it working: the call returns, \<open>null\<close> exactly for a notification and otherwise
  a response with the \<open>id\<close> of the request, and it changes neither the handler table nor
  that the logger works.
\<close>

lemma McpServer_handleRequest_step:
  assumes "logger_works (state srv)"
    and "handlers_keep_logger (methodHandlers srv)"
  shows "\<exists>x srv'. McpServer_handleRequest rt request srv = (Inr x, srv') \<and>
           (x = None \<longleftrightarrow> isNotification request) \<and>
           (\<forall>response. x = Some response \<longrightarrow> resp_id response = req_id request) \<and>
           logger_works (state srv') \<and> methodHandlers srv' = methodHandlers srv"
proof (cases "methodHandlers srv (req_method request)")
  case None
  with assms(1) show ?thesis
    by (simp add: McpServer_handleRequest_def McpServer_try_def logger_log_works Let_def
          createJsonRpcResponse_def createMethodNotFoundError_def createJsonRpcError_def)
next
  case (Some handler)
  obtain r st where h: "handler (req_params request) (state srv) = (r, st)"
    by (cases "handler (req_params request) (state srv)")
  have "logger_works (snd (handler (req_params request) (state srv)))"
    using assms Some unfolding handlers_keep_logger_def by blast
  with h have l: "logger_works st" by simp
  show ?thesis
  proof (cases r)
    case (Inl e)
    with Some h l assms(1) show ?thesis
      by (simp add: McpServer_handleRequest_def McpServer_try_def logger_log_works Let_def
            createJsonRpcResponse_def createInternalError_def createJsonRpcError_def)
  next
    case (Inr res)
    with Some h l assms(1) show ?thesis
      by (simp add: McpServer_handleRequest_def McpServer_try_def logger_log_works Let_def
            createJsonRpcResponse_def)
  qed
qed

text \<open>
  For a batch whose members are all valid messages without a key \<open>code\<close>, handled by a
  table whose handlers leave the logger working, the responses are one per request, in
  order and with the request's \<open>id\<close>, and none per notification.
\<close>

lemma processRequests_ids:
  assumes "\<forall>m \<in> set ms. isValidJsonRpcRequest m \<and> \<not> has_key ''code'' m"
    and "logger_works (state srv)"
    and "handlers_keep_logger (methodHandlers srv)"
  shows "map resp_id (fst (processRequests rt ms srv acc)) =
           map resp_id acc @ filter (\<lambda>i. i \<noteq> Undefined) (map (\<lambda>m. field m ''id'') ms)"
  using assms
proof (induction ms arbitrary: srv acc)
  case Nil
  then show ?case by simp
next
  case (Cons m ms)
  then have v: "validateJsonRpcRequest m = m" and c: "\<not> has_key ''code'' m"
    and rest: "\<forall>m \<in> set ms. isValidJsonRpcRequest m \<and> \<not> has_key ''code'' m"
    by (simp_all add: validate_valid)
  obtain x srv' where h: "McpServer_handleRequest rt (as_request m) srv = (Inr x, srv')"
    and n: "x = None \<longleftrightarrow> isNotification (as_request m)"
    and i: "\<forall>response. x = Some response \<longrightarrow> resp_id response = req_id (as_request m)"
    and l: "logger_works (state srv')" and t: "methodHandlers srv' = methodHandlers srv"
    using McpServer_handleRequest_step [where srv = srv and request = "as_request m" and rt = rt]
      Cons.prems(2,3) by blast
  have k: "handlers_keep_logger (methodHandlers srv')"
    using Cons.prems(3) t by simp
  have id: "req_id (as_request m) = field m ''id''"
    by (simp add: as_request_def)
  show ?case
  proof (cases x)
    case None
    with n id have "field m ''id'' = Undefined" by (simp add: isNotification_def)
    with None h v c Cons.IH [OF rest l k] show ?thesis by (simp add: Let_def)
  next
    case (Some response)
    with n id have "field m ''id'' \<noteq> Undefined" by (simp add: isNotification_def)
    moreover have "resp_id response = field m ''id''" using i Some id by simp
    ultimately show ?thesis
      using Some h v c Cons.IH [OF rest l k] by (simp add: Let_def)
  qed
qed

lemma batch_response_ids:
  assumes "\<forall>m \<in> set ms. isValidJsonRpcRequest m \<and> \<not> has_key ''code'' m"
    and "logger_works (state srv)"
    and "handlers_keep_logger (methodHandlers srv)"
  shows "\<exists>responses srv'.
           handleMcpRequest rt (JArr ms) srv =
             (\<lparr>status = 200, body = JsonResponses responses\<rparr>, srv') \<and>
           map resp_id responses =
             filter (\<lambda>i. i \<noteq> Undefined) (map (\<lambda>m. field m ''id'') ms)"
proof -
  obtain responses srv' where p: "processRequests rt ms srv [] = (responses, srv')"
    by (cases "processRequests rt ms srv []")
  with processRequests_ids [OF assms, of rt "[]"] show ?thesis
    by (simp add: handleMcpRequest_def)
qed

lemma single_notification_204:
  assumes "isValidJsonRpcRequest m" and "\<not> has_key ''code'' m"
    and "field m ''id'' = Undefined"
    and "logger_works (state srv)"
    and "handlers_keep_logger (methodHandlers srv)"
  shows "fst (handleMcpRequest rt m srv) = \<lparr>status = 204, body = NoBody\<rparr>"
proof -
  from assms(1) obtain kvs where m: "m = JObj kvs"
    by (cases m) (simp_all add: isValidJsonRpcRequest_def)
  obtain responses srv' where p: "processRequests rt [m] srv [] = (responses, srv')"
    by (cases "processRequests rt [m] srv []")
  have "map resp_id (fst (processRequests rt [m] srv [])) = []"
    using processRequests_ids [of "[m]" srv rt "[]"] assms by simp
  with p have "responses = []" by simp
  with p m show ?thesis
    by (simp add: handleMcpRequest_def del: processRequests.simps)
qed

text \<open>
  Claim C8 fails. The loop tells a validation error from a valid message by
  \<open>'code' in validationResult\<close>, and a valid message may itself carry a key \<open>code\<close>.
  Such a notification is taken for a validation error: in a batch it contributes an entry
  (an error response whose \<open>error\<close> is the notification itself), and sent alone it is
  answered with status 200 and that body, not with 204.
\<close>

theorem notification_with_code_is_answered:
  "isValidJsonRpcRequest flagged_notification \<and>
   isNotification (as_request flagged_notification) \<and>
   handleMcpRequest rt (JArr [flagged_notification]) (new_McpServer rt) =
     (\<lparr>status = 200,
       body = JsonResponses [\<lparr>jsonrpc = ''2.0'', resp_id = JNull, result = None,
                               error = Some flagged_notification\<rparr>]\<rparr>,
      new_McpServer rt) \<and>
   handleMcpRequest rt flagged_notification (new_McpServer rt) =
     (\<lparr>status = 200,
       body = JsonResponse \<lparr>jsonrpc = ''2.0'', resp_id = JNull, result = None,
                             error = Some flagged_notification\<rparr>\<rparr>,
      new_McpServer rt)"
proof -
  have v: "isValidJsonRpcRequest flagged_notification"
    by (simp add: isValidJsonRpcRequest_def flagged_notification_def)
  have n: "isNotification (as_request flagged_notification)"
    by (simp add: isNotification_def as_request_def flagged_notification_def)
  have k: "has_key ''code'' flagged_notification" "truthy flagged_notification"
    "field flagged_notification ''id'' = Undefined"
    by (simp_all add: flagged_notification_def)
  have a: "\<And>rt srv. processRequests rt [flagged_notification] srv [] =
             ([\<lparr>jsonrpc = ''2.0'', resp_id = JNull, result = None,
                 error = Some flagged_notification\<rparr>], srv)"
    using v k
    by (simp add: validate_valid Let_def formatErrorResponse_def createJsonRpcResponse_def
          js_or_def)
  have b: "\<And>rt srv. handleMcpRequest rt (JArr [flagged_notification]) srv =
             (\<lparr>status = 200,
               body = JsonResponses [\<lparr>jsonrpc = ''2.0'', resp_id = JNull, result = None,
                               error = Some flagged_notification\<rparr>]\<rparr>, srv)"
    by (simp add: handleMcpRequest_def a del: processRequests.simps)
  have s: "\<And>rt srv. handleMcpRequest rt flagged_notification srv =
             (\<lparr>status = 200,
               body = JsonResponse \<lparr>jsonrpc = ''2.0'', resp_id = JNull, result = None,
                               error = Some flagged_notification\<rparr>\<rparr>, srv)"
  proof -
    fix rt srv
    have "(case flagged_notification of JArr xs \<Rightarrow> True | _ \<Rightarrow> False) = False"
      "(case flagged_notification of JArr xs \<Rightarrow> xs | _ \<Rightarrow> [flagged_notification]) =
         [flagged_notification]"
      by (simp_all add: flagged_notification_def)
    then show "handleMcpRequest rt flagged_notification srv =
             (\<lparr>status = 200,
               body = JsonResponse \<lparr>jsonrpc = ''2.0'', resp_id = JNull, result = None,
                               error = Some flagged_notification\<rparr>\<rparr>, srv)"
      by (simp add: handleMcpRequest_def a del: processRequests.simps)
  qed
  show ?thesis using v n b s by simp
qed

section \<open>Registering and listing tools\<close>

lemma update_keyed:
  assumes "list_all (\<lambda>(k, t). k = f t) al"
  shows "list_all (\<lambda>(k, t). k = f t) (AList.update (f v) v al)"
  using assms by (induction al) auto

lemma update_filter_key:
  assumes "distinct (map fst al)"
  shows "filter (\<lambda>p. fst p = k) (AList.update k v al) = [(k, v)]"
  using assms
proof (induction al)
  case Nil
  then show ?case by simp
next
  case (Cons p al)
  show ?case
  proof (cases "fst p = k")
    case True
    from Cons.prems have "fst p \<notin> fst ` set al" by simp
    with True have "\<forall>q \<in> set al. fst q \<noteq> k" by (metis imageI)
    then have "filter (\<lambda>q. fst q = k) al = []" by (simp add: filter_empty_conv)
    with True show ?thesis by simp
  next
    case False
    with Cons show ?thesis by simp
  qed
qed

lemma keyed_filter:
  assumes "list_all (\<lambda>(k, t). k = f t) al"
  shows "filter (\<lambda>t. f t = n) (map snd al) = map snd (filter (\<lambda>p. fst p = n) al)"
  using assms by (induction al) auto

lemma keyed_names:
  assumes "list_all (\<lambda>(k, t). k = f t) al"
  shows "map f (map snd al) = map fst al"
  using assms by (induction al) auto

lemma tools_keyed_new: "tools_keyed new_MCPServer"
  by (simp add: tools_keyed_def new_MCPServer_def DAList.empty.rep_eq)

lemma tools_keyed_registerTool:
  assumes "tools_keyed s"
  shows "tools_keyed (registerTool t s)"
  using assms update_keyed [of tool_name "DAList.impl_of (tools s)" t]
  by (simp add: tools_keyed_def registerTool_def emit_def Map_set_def DAList.update.rep_eq)

text \<open>Handling a request leaves the registry of tools as it is.\<close>

lemma respond_tools: "tools (snd (respond request r)) = tools (snd r)"
  by (cases r; cases "fst r") (auto simp add: respond_def)

lemma initialize_tools: "tools (snd (initialize rt params s)) = tools s"
  by (simp add: initialize_def split: sum.splits)

lemma unknown_method_tools:
  "tools (snd (case js_ToString rt b of
                 Inl e \<Rightarrow> (Inl e, s)
               | Inr str \<Rightarrow> (Inl (Thrown (createError c (m @ str))), s))) = tools s"
  by (cases "js_ToString rt b") simp_all

lemma MCPServer_try_tools: "tools (snd (MCPServer_try rt msg s)) = tools s"
  by (cases "get_prop msg ''method''")
     (simp_all add: MCPServer_try_def respond_tools initialize_tools unknown_method_tools)

lemma MCPServer_handleRequest_registries:
  "tools (snd (MCPServer_handleRequest rt msg s)) = tools s"
proof (cases "MCPServer_try rt msg s")
  case (Pair r s')
  with MCPServer_try_tools [of rt msg s] have "tools s' = tools s" by simp
  with Pair show ?thesis
    by (cases r; cases "get_prop msg ''id''") (simp_all add: MCPServer_handleRequest_def)
qed

lemma tools_keyed_others:
  "tools_keyed (registerResource r s) = tools_keyed s"
  "tools_keyed (registerPrompt p s) = tools_keyed s"
  by (simp_all add: tools_keyed_def registerResource_def registerPrompt_def emit_def)

lemma registerTool_filter:
  assumes "tools_keyed s"
  shows "filter (\<lambda>x. tool_name x = tool_name t) (Map_values (tools (registerTool t s))) = [t]"
proof -
  let ?al = "AList.update (tool_name t) t (DAList.impl_of (tools s))"
  have k: "list_all (\<lambda>(k, t). k = tool_name t) ?al"
    using assms update_keyed [of tool_name "DAList.impl_of (tools s)" t]
    by (simp add: tools_keyed_def)
  have "filter (\<lambda>x. tool_name x = tool_name t) (map snd ?al) =
          map snd (filter (\<lambda>p. fst p = tool_name t) ?al)"
    using keyed_filter [OF k] .
  also have "\<dots> = [t]"
    by (simp add: update_filter_key)
  finally show ?thesis
    by (simp add: registerTool_def emit_def Map_set_def Map_values_def DAList.update.rep_eq)
qed

lemma tool_names_distinct:
  assumes "tools_keyed s"
  shows "distinct (map tool_name (Map_values (tools s)))"
proof -
  have "map tool_name (map snd (DAList.impl_of (tools s))) = map fst (DAList.impl_of (tools s))"
    using assms by (intro keyed_names) (simp add: tools_keyed_def)
  moreover have "distinct (map fst (DAList.impl_of (tools s)))"
    by (rule DAList.impl_of_distinct)
  ultimately show ?thesis
    by (simp only: Map_values_def)
qed

lemma MCPServer_tools_list:
  assumes "get_prop msg ''method'' = Inr (JStr ''tools/list'')"
  shows "MCPServer_handleRequest rt msg s =
           (Inr \<lparr>jsonrpc = ''2.0'', resp_id = field msg ''id'',
                 result = Some (JObj [(''tools'', JArr (map Tool_val (Map_values (tools s))))]),
                 error = None\<rparr>, s)"
  using assms
  by (simp add: MCPServer_handleRequest_def MCPServer_try_def respond_def listTools_def)

text \<open>The object of a descriptor determines the descriptor: no field is lost in the list.\<close>

lemma Tool_val_inj: "Tool_val t = Tool_val t' \<Longrightarrow> t = t'"
  by (cases t; cases t')
     (auto simp add: Tool_val_def opt_entry_def split: option.splits)

lemma Tool_val_name: "field (Tool_val x) ''name'' = JStr (tool_name x)"
  by (simp add: Tool_val_def)

lemma filter_Tool_val:
  "filter (\<lambda>v. field v ''name'' = JStr n) (map Tool_val ts) =
     map Tool_val (filter (\<lambda>x. tool_name x = n) ts)"
  by (induction ts) (simp_all add: Tool_val_name)

lemma Tool_val_object:
  "Tool_val t =
     JObj ([(''name'', JStr (tool_name t))]
           @ (case tool_description t of None \<Rightarrow> [] | Some d \<Rightarrow> [(''description'', JStr d)])
           @ [(''inputSchema'', inputSchema t)])"
  by (simp add: Tool_val_def opt_entry_def)

lemma listed_names_distinct:
  assumes "tools_keyed s"
  shows "distinct (map (\<lambda>v. field v ''name'') (map Tool_val (Map_values (tools s))))"
proof -
  have "map (\<lambda>v. field v ''name'') (map Tool_val ts) = map JStr (map tool_name ts)" for ts
    by (induction ts) (simp_all add: Tool_val_name)
  moreover have "distinct (map JStr (map tool_name (Map_values (tools s))))"
    using tool_names_distinct [OF assms] by (simp only: distinct_map) (simp add: inj_on_def)
  ultimately show ?thesis by (simp only:)
qed

lemma tools_list_after_register:
  assumes "tools_keyed s" and "get_prop msg ''method'' = Inr (JStr ''tools/list'')"
  shows "\<exists>items.
           MCPServer_handleRequest rt msg (registerTool t s) =
             (Inr \<lparr>jsonrpc = ''2.0'', resp_id = field msg ''id'',
                   result = Some (JObj [(''tools'', JArr items)]), error = None\<rparr>,
              registerTool t s) \<and>
           filter (\<lambda>v. field v ''name'' = JStr (tool_name t)) items =
             [JObj ([(''name'', JStr (tool_name t))]
                    @ (case tool_description t of
                         None \<Rightarrow> [] | Some d \<Rightarrow> [(''description'', JStr d)])
                    @ [(''inputSchema'', inputSchema t)])] \<and>
           distinct (map (\<lambda>v. field v ''name'') items)"
proof -
  let ?items = "map Tool_val (Map_values (tools (registerTool t s)))"
  have "filter (\<lambda>v. field v ''name'' = JStr (tool_name t)) ?items = [Tool_val t]"
    by (simp only: filter_Tool_val registerTool_filter [OF assms(1)]) simp
  moreover have "distinct (map (\<lambda>v. field v ''name'') ?items)"
    using tools_keyed_registerTool [OF assms(1)] by (rule listed_names_distinct)
  ultimately show ?thesis
    using MCPServer_tools_list [OF assms(2), of rt "registerTool t s"]
    by (simp only: Tool_val_object) blast
qed

text \<open>
  Claim C9. In a server whose registry is keyed by name, after \<open>registerTool t\<close> the
  answer to \<open>tools/list\<close> is a list of objects in which exactly one has the name of
  \<open>t\<close>, and that object has the name, the description (if \<open>t\<close> has one) and the input
  schema of \<open>t\<close> and nothing else; no two objects of the list share a name. After
  registering \<open>t'\<close> under the same name, the one object with that name is the object of
  \<open>t'\<close>.
\<close>

theorem registered_tool_is_listed_once:
  "tools_keyed s \<and> get_prop msg ''method'' = Inr (JStr ''tools/list'') \<longrightarrow>
     (\<exists>items.
        MCPServer_handleRequest rt msg (registerTool t s) =
          (Inr \<lparr>jsonrpc = ''2.0'', resp_id = field msg ''id'',
                result = Some (JObj [(''tools'', JArr items)]), error = None\<rparr>,
           registerTool t s) \<and>
        filter (\<lambda>v. field v ''name'' = JStr (tool_name t)) items =
          [JObj ([(''name'', JStr (tool_name t))]
                 @ (case tool_description t of
                      None \<Rightarrow> [] | Some d \<Rightarrow> [(''description'', JStr d)])
                 @ [(''inputSchema'', inputSchema t)])] \<and>
        distinct (map (\<lambda>v. field v ''name'') items)) \<and>
     (tool_name t' = tool_name t \<longrightarrow>
        (\<exists>items.
           MCPServer_handleRequest rt msg (registerTool t' (registerTool t s)) =
             (Inr \<lparr>jsonrpc = ''2.0'', resp_id = field msg ''id'',
                   result = Some (JObj [(''tools'', JArr items)]), error = None\<rparr>,
              registerTool t' (registerTool t s)) \<and>
           filter (\<lambda>v. field v ''name'' = JStr (tool_name t)) items =
             [JObj ([(''name'', JStr (tool_name t'))]
                    @ (case tool_description t' of
                         None \<Rightarrow> [] | Some d \<Rightarrow> [(''description'', JStr d)])
                    @ [(''inputSchema'', inputSchema t')])] \<and>
           distinct (map (\<lambda>v. field v ''name'') items)))"
proof (intro impI conjI)
  assume a: "tools_keyed s \<and> get_prop msg ''method'' = Inr (JStr ''tools/list'')"
  then show "\<exists>items.
        MCPServer_handleRequest rt msg (registerTool t s) =
          (Inr \<lparr>jsonrpc = ''2.0'', resp_id = field msg ''id'',
                result = Some (JObj [(''tools'', JArr items)]), error = None\<rparr>,
           registerTool t s) \<and>
        filter (\<lambda>v. field v ''name'' = JStr (tool_name t)) items =
          [JObj ([(''name'', JStr (tool_name t))]
                 @ (case tool_description t of
                      None \<Rightarrow> [] | Some d \<Rightarrow> [(''description'', JStr d)])
                 @ [(''inputSchema'', inputSchema t)])] \<and>
        distinct (map (\<lambda>v. field v ''name'') items)"
    using tools_list_after_register [of s msg rt t] by simp
  assume n: "tool_name t' = tool_name t"
  from a have "tools_keyed (registerTool t s)" by (simp add: tools_keyed_registerTool)
  with a n show "\<exists>items.
           MCPServer_handleRequest rt msg (registerTool t' (registerTool t s)) =
             (Inr \<lparr>jsonrpc = ''2.0'', resp_id = field msg ''id'',
                   result = Some (JObj [(''tools'', JArr items)]), error = None\<rparr>,
              registerTool t' (registerTool t s)) \<and>
           filter (\<lambda>v. field v ''name'' = JStr (tool_name t)) items =
             [JObj ([(''name'', JStr (tool_name t'))]
                    @ (case tool_description t' of
                         None \<Rightarrow> [] | Some d \<Rightarrow> [(''description'', JStr d)])
                    @ [(''inputSchema'', inputSchema t')])] \<and>
           distinct (map (\<lambda>v. field v ''name'') items)"
    using tools_list_after_register [of "registerTool t s" msg rt t'] by simp
qed

text \<open>An instance: the tool \<open>echo\<close> registered twice on a new server, and the answer.\<close>

lemma register_echo_twice:
  "MCPServer_handleRequest sample_runtime tools_list_msg
     (registerTool echo_tool_v2 (registerTool echo_tool new_MCPServer)) =
     (Inr \<lparr>jsonrpc = ''2.0'', resp_id = js_int 2,
           result = Some (JObj [(''tools'', JArr [
              JObj [(''name'', JStr ''echo''),
                    (''inputSchema'', JObj [(''type'', JStr ''object''),
                                            (''required'', JArr [JStr ''message''])])]])]),
           error = None\<rparr>,
      registerTool echo_tool_v2 (registerTool echo_tool new_MCPServer))"
proof -
  have "Map_values (tools (registerTool echo_tool_v2 (registerTool echo_tool new_MCPServer))) =
          [echo_tool_v2]"
    by (simp add: registerTool_def emit_def Map_set_def Map_values_def new_MCPServer_def
          DAList.update.rep_eq DAList.empty.rep_eq echo_tool_def echo_tool_v2_def)
  moreover have "get_prop tools_list_msg ''method'' = Inr (JStr ''tools/list'')"
    "field tools_list_msg ''id'' = js_int 2"
    by (simp_all add: get_prop_def tools_list_msg_def)
  ultimately show ?thesis
    by (simp add: MCPServer_tools_list Tool_val_object echo_tool_v2_def)
qed

theorem registered_tool_is_listed_once_witness:
  "tools_keyed new_MCPServer \<and>
   get_prop tools_list_msg ''method'' = Inr (JStr ''tools/list'') \<and>
   tool_name echo_tool_v2 = tool_name echo_tool \<and>
   (\<exists>items.
      MCPServer_handleRequest sample_runtime tools_list_msg
        (registerTool echo_tool new_MCPServer) =
        (Inr \<lparr>jsonrpc = ''2.0'', resp_id = js_int 2,
              result = Some (JObj [(''tools'', JArr items)]), error = None\<rparr>,
         registerTool echo_tool new_MCPServer) \<and>
      filter (\<lambda>v. field v ''name'' = JStr ''echo'') items =
        [JObj [(''name'', JStr ''echo''),
               (''description'', JStr ''Echo back the provided message''),
               (''inputSchema'', JObj [(''type'', JStr ''object'')])]]) \<and>
   (\<exists>items.
      MCPServer_handleRequest sample_runtime tools_list_msg
        (registerTool echo_tool_v2 (registerTool echo_tool new_MCPServer)) =
        (Inr \<lparr>jsonrpc = ''2.0'', resp_id = js_int 2,
              result = Some (JObj [(''tools'', JArr items)]), error = None\<rparr>,
         registerTool echo_tool_v2 (registerTool echo_tool new_MCPServer)) \<and>
      filter (\<lambda>v. field v ''name'' = JStr ''echo'') items =
        [JObj [(''name'', JStr ''echo''),
               (''inputSchema'', JObj [(''type'', JStr ''object''),
                                       (''required'', JArr [JStr ''message''])])]])"
proof -
  have m: "get_prop tools_list_msg ''method'' = Inr (JStr ''tools/list'')"
    "field tools_list_msg ''id'' = js_int 2"
    by (simp_all add: get_prop_def tools_list_msg_def)
  have n: "tool_name echo_tool_v2 = tool_name echo_tool" "tool_name echo_tool = ''echo''"
    "tool_description echo_tool = Some ''Echo back the provided message''"
    "inputSchema echo_tool = JObj [(''type'', JStr ''object'')]"
    "tool_name echo_tool_v2 = ''echo''" "tool_description echo_tool_v2 = None"
    "inputSchema echo_tool_v2 =
       JObj [(''type'', JStr ''object''), (''required'', JArr [JStr ''message''])]"
    by (simp_all add: echo_tool_def echo_tool_v2_def)
  have t: "(\<exists>items.
      MCPServer_handleRequest sample_runtime tools_list_msg
        (registerTool echo_tool new_MCPServer) =
        (Inr \<lparr>jsonrpc = ''2.0'', resp_id = js_int 2,
              result = Some (JObj [(''tools'', JArr items)]), error = None\<rparr>,
         registerTool echo_tool new_MCPServer) \<and>
      filter (\<lambda>v. field v ''name'' = JStr ''echo'') items =
        [JObj [(''name'', JStr ''echo''),
               (''description'', JStr ''Echo back the provided message''),
               (''inputSchema'', JObj [(''type'', JStr ''object'')])]]) \<and>
   (\<exists>items.
      MCPServer_handleRequest sample_runtime tools_list_msg
        (registerTool echo_tool_v2 (registerTool echo_tool new_MCPServer)) =
        (Inr \<lparr>jsonrpc = ''2.0'', resp_id = js_int 2,
              result = Some (JObj [(''tools'', JArr items)]), error = None\<rparr>,
         registerTool echo_tool_v2 (registerTool echo_tool new_MCPServer)) \<and>
      filter (\<lambda>v. field v ''name'' = JStr ''echo'') items =
        [JObj [(''name'', JStr ''echo''),
               (''inputSchema'', JObj [(''type'', JStr ''object''),
                                       (''required'', JArr [JStr ''message''])])]])"
    using registered_tool_is_listed_once
        [of new_MCPServer tools_list_msg sample_runtime echo_tool echo_tool_v2]
      tools_keyed_new m n
    by (simp only: n m simp_thms option.case append.simps) blast
  with tools_keyed_new m(1) n(1) show ?thesis by simp
qed

section \<open>Division by zero\<close>

lemma field_defined_truthy:
  assumes "field v k \<noteq> Undefined"
  shows "truthy v"
  using assms by (cases v) simp_all

lemma executeTool_divide_by_zero:
  assumes "field args ''operation'' = JStr ''divide''"
    and "field args ''a'' = JNum a" and "field args ''b'' = JNum (Fin 0)"
  shows "executeTool rt (JStr ''calculate'') args = Inr ''Error: Division by zero''"
  using assms by (simp add: executeTool_def js_Number_def Let_def)

text \<open>
  Claim C10. On a stdio server that has the tool \<open>calculate\<close> registered, a
  \<open>tools/call\<close> request for it with operation \<open>divide\<close>, a number as first operand
  and the number 0 as second operand is answered with a result whose one text block is
  \<open>Error: Division by zero\<close>, and with no error; the answer is the same for every
  runtime, so it does not depend on what the division would give.
\<close>

theorem division_by_zero_is_guarded:
  "Map_get (tools s) (JStr ''calculate'') = Some tool \<and>
   get_prop msg ''method'' = Inr (JStr ''tools/call'') \<and>
   get_prop (field msg ''params'') ''name'' = Inr (JStr ''calculate'') \<and>
   field (field (field msg ''params'') ''arguments'') ''operation'' = JStr ''divide'' \<and>
   field (field (field msg ''params'') ''arguments'') ''a'' = JNum a \<and>
   field (field (field msg ''params'') ''arguments'') ''b'' = JNum (Fin 0) \<longrightarrow>
     MCPServer_handleRequest rt msg s =
       (Inr \<lparr>jsonrpc = ''2.0'', resp_id = field msg ''id'',
             result = Some (JObj [(''content'',
                        JArr [JObj [(''type'', JStr ''text''),
                                    (''text'', JStr ''Error: Division by zero'')]])]),
             error = None\<rparr>, s)"
proof
  assume a: "Map_get (tools s) (JStr ''calculate'') = Some tool \<and>
   get_prop msg ''method'' = Inr (JStr ''tools/call'') \<and>
   get_prop (field msg ''params'') ''name'' = Inr (JStr ''calculate'') \<and>
   field (field (field msg ''params'') ''arguments'') ''operation'' = JStr ''divide'' \<and>
   field (field (field msg ''params'') ''arguments'') ''a'' = JNum a \<and>
   field (field (field msg ''params'') ''arguments'') ''b'' = JNum (Fin 0)"
  let ?args = "field (field msg ''params'') ''arguments''"
  from a have "truthy ?args"
    using field_defined_truthy [of ?args "''operation''"] by simp
  then have o: "js_or ?args (JObj []) = ?args" by (simp add: js_or_def)
  have e: "executeTool rt (JStr ''calculate'') ?args = Inr ''Error: Division by zero''"
    using a by (intro executeTool_divide_by_zero) simp_all
  have "callTool rt (field msg ''params'') s =
          Inr (JObj [(''content'', JArr [JObj [(''type'', JStr ''text''),
                                               (''text'', JStr ''Error: Division by zero'')]])])"
    using a by (simp add: callTool_def o e)
  with a show "MCPServer_handleRequest rt msg s =
        (Inr \<lparr>jsonrpc = ''2.0'', resp_id = field msg ''id'',
              result = Some (JObj [(''content'',
                         JArr [JObj [(''type'', JStr ''text''),
                                     (''text'', JStr ''Error: Division by zero'')]])]),
              error = None\<rparr>, s)"
    by (simp add: MCPServer_handleRequest_def MCPServer_try_def respond_def)
qed

lemma setupServer_calculate:
  "\<exists>tool. Map_get (tools (setupServer new_MCPServer)) (JStr ''calculate'') = Some tool"
  by (simp add: setupServer_def registerResource_def registerTool_def registerPrompt_def
        emit_def new_MCPServer_def Map_get_def Map_set_def)

theorem division_by_zero_is_guarded_witness:
  "(\<exists>tool. Map_get (tools (setupServer new_MCPServer)) (JStr ''calculate'') = Some tool) \<and>
   field (field (field divide_msg ''params'') ''arguments'') ''a'' = JNum (Fin 7) \<and>
   field (field (field divide_msg ''params'') ''arguments'') ''b'' = JNum (Fin 0) \<and>
   MCPServer_handleRequest sample_runtime divide_msg (setupServer new_MCPServer) =
     (Inr \<lparr>jsonrpc = ''2.0'', resp_id = js_int 3,
           result = Some (JObj [(''content'',
                      JArr [JObj [(''type'', JStr ''text''),
                                  (''text'', JStr ''Error: Division by zero'')]])]),
           error = None\<rparr>, setupServer new_MCPServer)"
proof -
  obtain tool where t: "Map_get (tools (setupServer new_MCPServer)) (JStr ''calculate'') = Some tool"
    using setupServer_calculate by blast
  have m: "get_prop divide_msg ''method'' = Inr (JStr ''tools/call'')"
    "get_prop (field divide_msg ''params'') ''name'' = Inr (JStr ''calculate'')"
    "field (field (field divide_msg ''params'') ''arguments'') ''operation'' = JStr ''divide''"
    "field (field (field divide_msg ''params'') ''arguments'') ''a'' = JNum (Fin 7)"
    "field (field (field divide_msg ''params'') ''arguments'') ''b'' = JNum (Fin 0)"
    "field divide_msg ''id'' = js_int 3"
    by (simp_all add: get_prop_def divide_msg_def)
  show ?thesis
    using division_by_zero_is_guarded
        [of "setupServer new_MCPServer" tool divide_msg "Fin 7" sample_runtime] t m
    by simp
qed

end
